theory Spec2Isabelle
  imports Main
begin

section \<open>Values, errors and tabular batches\<close>

text \<open>
  A cell of a pandas DataFrame as this program meets it: a number, a piece of text, or
  the null marker (NaN / None). Numbers are integers, as every numeric column of the
  shipments table is.
\<close>

datatype cell = Num int | Str string | Null

text \<open>
  The exceptions that the program, pandas and psycopg2 raise on the paths modelled here.
  The payload is the message (for \<open>UnboundLocalError\<close> and \<open>KeyError\<close> the name).
\<close>

datatype error =
    AssertionError string
  | TypeError string
  | AttributeError string
  | ValueError string
  | KeyError string
  | UnboundLocalError string
  | FileNotFoundError string
  | OperationalError string
  | ProgrammingError string
  | IntegrityError string
  | DataError string

fun message :: "error \<Rightarrow> string" where
  "message (AssertionError m) = m"
| "message (TypeError m) = m"
| "message (AttributeError m) = m"
| "message (ValueError m) = m"
| "message (KeyError m) = m"
| "message (UnboundLocalError m) = m"
| "message (FileNotFoundError m) = m"
| "message (OperationalError m) = m"
| "message (ProgrammingError m) = m"
| "message (IntegrityError m) = m"
| "message (DataError m) = m"

text \<open>
  A DataFrame, column by column: the labelled columns in order (labels may repeat, as
  pandas allows after a rename) and the number of rows of the index.
\<close>

record dataframe =
  index_size :: nat
  frame :: "(string \<times> cell list) list"

definition columns :: "dataframe \<Rightarrow> string list" where
  "columns df = map fst (frame df)"

text \<open>
  A batch as \<open>read_csv\<close> hands it over: labels are distinct (pandas renames repeated
  header fields) and every column has one cell per row.
\<close>

definition wf_frame :: "dataframe \<Rightarrow> bool" where
  "wf_frame df \<longleftrightarrow>
     distinct (columns df) \<and> list_all (\<lambda>(n, vs). length vs = index_size df) (frame df)"

text \<open>
  \<open>df[c]\<close>: a Series when one column bears the label, a DataFrame when several do,
  KeyError when none does.
\<close>

datatype selection = Series "cell list" | Frame "(string \<times> cell list) list"

definition getitem :: "dataframe \<Rightarrow> string \<Rightarrow> error + selection" where
  "getitem df c =
     (case filter (\<lambda>(n, vs). n = c) (frame df) of
        [] \<Rightarrow> Inl (KeyError c)
      | [(n, vs)] \<Rightarrow> Inr (Series vs)
      | sel \<Rightarrow> Inr (Frame sel))"

text \<open>
  \<open>df[c] = s\<close> where \<open>c\<close> labels one column: the column is replaced in place; a new
  label is appended.
\<close>

definition setitem :: "dataframe \<Rightarrow> string \<Rightarrow> cell list \<Rightarrow> dataframe" where
  "setitem df c s =
     (if c \<in> set (columns df)
      then df\<lparr>frame := map (\<lambda>(n, vs). if n = c then (n, s) else (n, vs)) (frame df)\<rparr>
      else df\<lparr>frame := frame df @ [(c, s)]\<rparr>)"

text \<open>\<open>df.values.tolist()\<close>: the rows, each a list of cells in column order.\<close>

fun rows_of :: "nat \<Rightarrow> cell list list \<Rightarrow> cell list list" where
  "rows_of 0 cols = []"
| "rows_of (Suc k) cols = map hd cols # rows_of k (map tl cols)"

definition records :: "dataframe \<Rightarrow> cell list list" where
  "records df = rows_of (index_size df) (map snd (frame df))"

section \<open>validate\_data\<close>

definition required_columns :: "string list" where
  "required_columns =
     [''ID'', ''Warehouse_block'', ''Mode_of_Shipment'', ''Customer_care_calls'',
      ''Customer_rating'', ''Cost_of_the_Product'', ''Prior_purchases'',
      ''Product_importance'', ''Gender'', ''Discount_offered'', ''Weight_in_gms'',
      ''Reached.on.Time_Y.N'']"

text \<open>
  \<open>Series.between(lo, hi)\<close> compares every cell with both bounds. Comparing text with
  a number raises TypeError; the null marker compares false.
\<close>

fun between_cell :: "int \<Rightarrow> int \<Rightarrow> cell \<Rightarrow> error + bool" where
  "between_cell lo hi (Num n) = Inr (lo \<le> n \<and> n \<le> hi)"
| "between_cell lo hi (Str s) =
     Inl (TypeError ''>= not supported between instances of str and int'')"
| "between_cell lo hi Null = Inr False"

fun between :: "int \<Rightarrow> int \<Rightarrow> cell list \<Rightarrow> error + bool list" where
  "between lo hi [] = Inr []"
| "between lo hi (v # vs) =
     (case between_cell lo hi v of
        Inl e \<Rightarrow> Inl e
      | Inr b \<Rightarrow> (case between lo hi vs of Inl e \<Rightarrow> Inl e | Inr bs \<Rightarrow> Inr (b # bs)))"

text \<open>\<open>Series.isin(xs)\<close>: membership by equality; text and null are never members.\<close>

fun isin_cell :: "int list \<Rightarrow> cell \<Rightarrow> bool" where
  "isin_cell xs (Num n) = (n \<in> set xs)"
| "isin_cell xs (Str s) = False"
| "isin_cell xs Null = False"

definition isin :: "int list \<Rightarrow> cell list \<Rightarrow> bool list" where
  "isin xs vs = map (isin_cell xs) vs"

definition all_true :: "bool list \<Rightarrow> bool" where
  "all_true bs = list_all (\<lambda>b. b) bs"

text \<open>
  The three assertions, in the order of the source. Selecting a repeated label gives a
  DataFrame, which has no \<open>between\<close> (AttributeError) and whose \<open>isin(...).all()\<close> is
  a Series of several truth values that \<open>assert\<close> cannot turn into one (ValueError).
\<close>

definition check_flag :: "dataframe \<Rightarrow> error + bool" where
  "check_flag df =
     (case getitem df ''Reached.on.Time_Y.N'' of
        Inl e \<Rightarrow> Inl e
      | Inr (Frame sel) \<Rightarrow> Inl (ValueError ''The truth value of a Series is ambiguous'')
      | Inr (Series flag) \<Rightarrow>
          (if \<not> all_true (isin [0, 1] flag)
           then Inl (AssertionError ''Invalid reached on time values'')
           else Inr True))"

definition check_rating :: "dataframe \<Rightarrow> error + bool" where
  "check_rating df =
     (case getitem df ''Customer_rating'' of
        Inl e \<Rightarrow> Inl e
      | Inr (Frame sel) \<Rightarrow> Inl (AttributeError ''DataFrame object has no attribute between'')
      | Inr (Series rating) \<Rightarrow>
          (case between 1 5 rating of
             Inl e \<Rightarrow> Inl e
           | Inr bs \<Rightarrow>
               (if \<not> all_true bs then Inl (AssertionError ''Invalid customer ratings'')
                else Inr True)))"

definition validate_data :: "dataframe \<Rightarrow> error + bool" where
  "validate_data df =
     (if \<not> list_all (\<lambda>c. c \<in> set (columns df)) required_columns
      then Inl (AssertionError ''Missing required columns'')
      else (case check_rating df of
              Inl e \<Rightarrow> Inl e
            | Inr ok \<Rightarrow> check_flag df))"

section \<open>Configuration and connection parameters\<close>

record config =
  dbname :: string
  user :: string
  password :: string
  host :: string
  port :: string

text \<open>\<open>os.getenv(name, default)\<close> over the process environment.\<close>

definition getenv :: "(string \<Rightarrow> string option) \<Rightarrow> string \<Rightarrow> string \<Rightarrow> string" where
  "getenv env name dflt = (case env name of Some v \<Rightarrow> v | None \<Rightarrow> dflt)"

definition DB_CONFIG :: "(string \<Rightarrow> string option) \<Rightarrow> config" where
  "DB_CONFIG env =
     \<lparr>dbname = getenv env ''DB_NAME'' ''train'',
      user = getenv env ''DB_USER'' ''postgre'',
      password = getenv env ''DB_PASSWORD'' ''postgre'',
      host = getenv env ''DB_HOST'' ''localhost'',
      port = getenv env ''DB_PORT'' ''5432''\<rparr>"

text \<open>
  The keyword arguments of one \<open>psycopg2.connect\<close> call; \<open>None\<close> is a keyword that
  the call does not pass (the driver then falls back on its own default).
\<close>

record connect_args =
  arg_dbname :: "string option"
  arg_user :: "string option"
  arg_password :: "string option"
  arg_host :: "string option"
  arg_port :: "string option"

definition connect_args_of :: "config \<Rightarrow> string \<Rightarrow> connect_args" where
  "connect_args_of cfg database =
     (if database = ''postgres''
      then \<lparr>arg_dbname = Some ''postgres'', arg_user = Some (user cfg),
            arg_password = Some (password cfg), arg_host = Some (host cfg),
            arg_port = None\<rparr>
      else \<lparr>arg_dbname = Some (dbname cfg), arg_user = Some (user cfg),
            arg_password = Some (password cfg), arg_host = Some (host cfg),
            arg_port = Some (port cfg)\<rparr>)"

section \<open>The target store\<close>

datatype col_type = INTEGER | VARCHAR nat | TIMESTAMP

datatype col_constraint =
    PRIMARY_KEY
  | CHECK_BETWEEN int int
  | CHECK_IN "int list"
  | DEFAULT_CURRENT_TIMESTAMP

type_synonym column_def = "string \<times> col_type \<times> col_constraint list"

type_synonym stored_row = "(string \<times> cell) list"

record pg_table =
  table_def :: "column_def list"
  table_rows :: "stored_row list"

text \<open>
  The catalogs of the server: the databases, the schemas (database, schema) and the
  tables ((database, schema, table), definition and rows).
\<close>

record pg_state =
  databases :: "string list"
  schemas :: "(string \<times> string) list"
  tables :: "((string \<times> string \<times> string) \<times> pg_table) list"

datatype statement =
    SelectDatabase string
  | CreateDatabase string
  | CreateSchemaIfNotExists string
  | CreateTableIfNotExists string string "column_def list"
  | InsertOnConflictUpdate string string "string list" "cell list" string "string list"

text \<open>The column list of \<open>create_table_query\<close>.\<close>

definition shipments_def :: "column_def list" where
  "shipments_def =
     [(''id'', INTEGER, [PRIMARY_KEY]),
      (''warehouse_block'', VARCHAR 50, []),
      (''mode_of_shipment'', VARCHAR 50, []),
      (''customer_care_calls'', INTEGER, []),
      (''customer_rating'', INTEGER, [CHECK_BETWEEN 1 5]),
      (''cost_of_the_product'', INTEGER, []),
      (''prior_purchases'', INTEGER, []),
      (''product_importance'', VARCHAR 50, []),
      (''gender'', VARCHAR 50, []),
      (''discount_offered'', INTEGER, []),
      (''weight_in_gms'', INTEGER, []),
      (''reached_on_time'', INTEGER, [CHECK_IN [0, 1]]),
      (''created_at'', TIMESTAMP, [DEFAULT_CURRENT_TIMESTAMP])]"

text \<open>
  A column constraint on a value. A CHECK passes on NULL, as in SQL; uniqueness of the
  primary key is the business of the conflict clause below.
\<close>

fun satisfies :: "col_constraint \<Rightarrow> cell \<Rightarrow> bool" where
  "satisfies PRIMARY_KEY v = (v \<noteq> Null)"
| "satisfies (CHECK_BETWEEN lo hi) (Num n) = (lo \<le> n \<and> n \<le> hi)"
| "satisfies (CHECK_BETWEEN lo hi) (Str s) = False"
| "satisfies (CHECK_BETWEEN lo hi) Null = True"
| "satisfies (CHECK_IN xs) (Num n) = (n \<in> set xs)"
| "satisfies (CHECK_IN xs) (Str s) = False"
| "satisfies (CHECK_IN xs) Null = True"
| "satisfies DEFAULT_CURRENT_TIMESTAMP v = True"

definition cell_of :: "stored_row \<Rightarrow> string \<Rightarrow> cell" where
  "cell_of r c = (case map_of r c of Some v \<Rightarrow> v | None \<Rightarrow> Null)"

definition row_valid :: "column_def list \<Rightarrow> stored_row \<Rightarrow> bool" where
  "row_valid tdef r =
     list_all (\<lambda>(n, ty, cs). list_all (\<lambda>k. satisfies k (cell_of r n)) cs) tdef"

text \<open>
  The row an INSERT proposes: the given value for a listed column, the default for the
  others (the clock for a CURRENT\_TIMESTAMP default, NULL otherwise).
\<close>

definition proposed :: "int \<Rightarrow> string list \<Rightarrow> cell list \<Rightarrow> column_def list \<Rightarrow> stored_row" where
  "proposed now cols vals tdef =
     map (\<lambda>(n, ty, cs).
            (n, case map_of (zip cols vals) n of
                  Some v \<Rightarrow> v
                | None \<Rightarrow> if DEFAULT_CURRENT_TIMESTAMP \<in> set cs then Num now else Null))
         tdef"

text \<open>
  \<open>SET c = EXCLUDED.c\<close> for every \<open>c\<close> of the SET list: the new version of a
  stored row, with the columns of the table, the excluded value in the columns of the
  SET list and the old value in the others.
\<close>

definition overwrite ::
  "column_def list \<Rightarrow> string list \<Rightarrow> stored_row \<Rightarrow> stored_row \<Rightarrow> stored_row" where
  "overwrite tdef set_cols excluded old =
     map (\<lambda>(n, ty, cs). (n, if n \<in> set set_cols then cell_of excluded n else cell_of old n))
         tdef"

text \<open>
  \<open>INSERT INTO t (cols) VALUES (vals) ON CONFLICT (key) DO UPDATE SET ...\<close> on one
  table. \<open>storable\<close> says which values the server can store in a column of a type
  (the driver's adaptation and the server's input conversion, which the source leaves
  to psycopg2 and PostgreSQL).
\<close>

definition upsert ::
  "(col_type \<Rightarrow> cell \<Rightarrow> bool) \<Rightarrow> int \<Rightarrow> string list \<Rightarrow> cell list \<Rightarrow> string \<Rightarrow> string list
     \<Rightarrow> pg_table \<Rightarrow> error + pg_table" where
  "upsert storable now cols vals key set_cols t =
     (if length vals \<noteq> length cols
      then Inl (ProgrammingError ''parameters do not match the placeholders'')
      else if cols = [] \<or> set_cols = []
      then Inl (ProgrammingError ''syntax error'')
      else if \<not> list_all (\<lambda>c. c \<in> set (map fst (table_def t))) (cols @ set_cols)
      then Inl (ProgrammingError ''column does not exist'')
      else if \<not> distinct cols \<or> \<not> distinct set_cols
      then Inl (ProgrammingError ''column specified more than once'')
      else if \<not> list_ex (\<lambda>(n, ty, cs). n = key \<and> PRIMARY_KEY \<in> set cs) (table_def t)
      then Inl (ProgrammingError ''no unique constraint matching ON CONFLICT'')
      else
        let new = proposed now cols vals (table_def t) in
        if \<not> list_all (\<lambda>(n, ty, cs). storable ty (cell_of new n)) (table_def t)
        then Inl (DataError ''invalid input value'')
        else if \<not> row_valid (table_def t) new
        then Inl (IntegrityError ''violates a constraint'')
        else if list_ex (\<lambda>r. cell_of r key = cell_of new key) (table_rows t)
        then
          let rows' = map (\<lambda>r. if cell_of r key = cell_of new key
                                then overwrite (table_def t) set_cols new r else r)
                         (table_rows t)
          in if \<not> list_all (row_valid (table_def t)) rows'
             then Inl (IntegrityError ''violates a constraint'')
             else Inr (t\<lparr>table_rows := rows'\<rparr>)
        else Inr (t\<lparr>table_rows := table_rows t @ [new]\<rparr>))"

text \<open>
  One statement against the catalogs, from a connection to database \<open>db\<close>. The result
  is the new catalogs and the rows the cursor can fetch.
\<close>

definition pg_execute ::
  "(col_type \<Rightarrow> cell \<Rightarrow> bool) \<Rightarrow> int \<Rightarrow> bool \<Rightarrow> string \<Rightarrow> bool \<Rightarrow> pg_state \<Rightarrow> statement
     \<Rightarrow> error + (pg_state \<times> cell list list)" where
  "pg_execute storable now createdb db auto s st =
     (case st of
        SelectDatabase name \<Rightarrow>
          Inr (s, if name \<in> set (databases s) then [[Num 1]] else [])
      | CreateDatabase name \<Rightarrow>
          if \<not> auto
          then Inl (ProgrammingError ''CREATE DATABASE cannot run inside a transaction block'')
          else if \<not> createdb
          then Inl (ProgrammingError ''permission denied to create database'')
          else if name \<in> set (databases s)
          then Inl (ProgrammingError ''database already exists'')
          else Inr (s\<lparr>databases := databases s @ [name]\<rparr>, [])
      | CreateSchemaIfNotExists sch \<Rightarrow>
          if (db, sch) \<in> set (schemas s) then Inr (s, [])
          else Inr (s\<lparr>schemas := schemas s @ [(db, sch)]\<rparr>, [])
      | CreateTableIfNotExists sch tbl cols \<Rightarrow>
          if (db, sch) \<notin> set (schemas s)
          then Inl (ProgrammingError ''schema does not exist'')
          else if (db, sch, tbl) \<in> set (map fst (tables s)) then Inr (s, [])
          else Inr (s\<lparr>tables := tables s
                         @ [((db, sch, tbl), \<lparr>table_def = cols, table_rows = []\<rparr>)]\<rparr>, [])
      | InsertOnConflictUpdate sch tbl cols vals key set_cols \<Rightarrow>
          (case map_of (tables s) (db, sch, tbl) of
             None \<Rightarrow> Inl (ProgrammingError ''relation does not exist'')
           | Some t \<Rightarrow>
               (case upsert storable now cols vals key set_cols t of
                  Inl e \<Rightarrow> Inl e
                | Inr t' \<Rightarrow>
                    Inr (s\<lparr>tables := map (\<lambda>(k, old). if k = (db, sch, tbl) then (k, t')
                                                       else (k, old)) (tables s)\<rparr>, []))))"

section \<open>The world the program runs in\<close>

datatype level = INFO | ERROR

text \<open>
  The server (which connection requests it answers, whether the role may create
  databases, which values it can store, its clock, its committed catalogs), the open
  connections and cursors of this process, the log, the DataFrame objects of the
  Python heap (an address is an index) and the CSV files as \<open>read_csv\<close> parses them.
\<close>

record world =
  reachable :: "connect_args \<Rightarrow> bool"
  createdb :: bool
  storable :: "col_type \<Rightarrow> cell \<Rightarrow> bool"
  clock :: int
  server :: pg_state
  open_connections :: nat
  open_cursors :: nat
  logs :: "(level \<times> string) list"
  heap :: "dataframe list"
  files :: "string \<Rightarrow> dataframe option"

definition logging_info :: "string \<Rightarrow> world \<Rightarrow> world" where
  "logging_info m w = w\<lparr>logs := logs w @ [(INFO, m)]\<rparr>"

definition logging_error :: "string \<Rightarrow> world \<Rightarrow> world" where
  "logging_error m w = w\<lparr>logs := logs w @ [(ERROR, m)]\<rparr>"

text \<open>
  A connection object: the database it is connected to, its autocommit flag and the
  catalogs as its transaction sees them. A cursor holds the rows still to fetch.
\<close>

record connection =
  conn_db :: string
  autocommit :: bool
  txn :: pg_state

type_synonym cursor = "cell list list"

definition psycopg2_connect :: "connect_args \<Rightarrow> world \<Rightarrow> (error + connection) \<times> world" where
  "psycopg2_connect args w =
     (case arg_dbname args of
        None \<Rightarrow> (Inl (OperationalError ''no database given''), w)
      | Some db \<Rightarrow>
          if reachable w args \<and> db \<in> set (databases (server w))
          then (Inr \<lparr>conn_db = db, autocommit = False, txn = server w\<rparr>,
                w\<lparr>open_connections := Suc (open_connections w)\<rparr>)
          else (Inl (OperationalError ''connection failed''), w))"

definition conn_cursor :: "world \<Rightarrow> cursor \<times> world" where
  "conn_cursor w = ([], w\<lparr>open_cursors := Suc (open_cursors w)\<rparr>)"

definition cur_close :: "world \<Rightarrow> world" where
  "cur_close w = w\<lparr>open_cursors := open_cursors w - 1\<rparr>"

definition conn_close :: "world \<Rightarrow> world" where
  "conn_close w = w\<lparr>open_connections := open_connections w - 1\<rparr>"

text \<open>
  \<open>cur.execute\<close>: in autocommit mode the statement acts on the committed catalogs at
  once, otherwise on the view of the open transaction.
\<close>

definition cur_execute ::
  "statement \<Rightarrow> connection \<Rightarrow> world \<Rightarrow> error + (cursor \<times> connection \<times> world)" where
  "cur_execute st conn w =
     (case pg_execute (storable w) (clock w) (createdb w) (conn_db conn) (autocommit conn)
             (if autocommit conn then server w else txn conn) st of
        Inl e \<Rightarrow> Inl e
      | Inr (s', res) \<Rightarrow>
          Inr (res, conn\<lparr>txn := s'\<rparr>, if autocommit conn then w\<lparr>server := s'\<rparr> else w))"

text \<open>\<open>cur.executemany\<close>: one execution per parameter tuple, stopping at the first error.\<close>

fun cur_executemany ::
  "(cell list \<Rightarrow> statement) \<Rightarrow> cell list list \<Rightarrow> connection \<Rightarrow> world
     \<Rightarrow> error option \<times> connection \<times> world" where
  "cur_executemany q [] conn w = (None, conn, w)"
| "cur_executemany q (r # rs) conn w =
     (case cur_execute (q r) conn w of
        Inl e \<Rightarrow> (Some e, conn, w)
      | Inr (res, conn', w') \<Rightarrow> cur_executemany q rs conn' w')"

definition conn_commit :: "connection \<Rightarrow> world \<Rightarrow> world" where
  "conn_commit conn w = w\<lparr>server := txn conn\<rparr>"

definition conn_rollback :: "connection \<Rightarrow> world \<Rightarrow> connection" where
  "conn_rollback conn w = conn\<lparr>txn := server w\<rparr>"

section \<open>get\_connection and the provisioning operations\<close>

definition get_connection :: "config \<Rightarrow> string \<Rightarrow> world \<Rightarrow> (error + connection) \<times> world" where
  "get_connection cfg database w =
     (case psycopg2_connect (connect_args_of cfg database) w of
        (Inl e, w') \<Rightarrow> (Inl e, logging_error (''Database connection failed: '' @ message e) w')
      | (Inr conn, w') \<Rightarrow> (Inr conn, w'))"

text \<open>
  The local variables \<open>conn\<close> and \<open>cur\<close> of an operation: \<open>None\<close> while unbound.
\<close>

record locals =
  conn :: "connection option"
  cur :: "cursor option"

text \<open>
  The \<open>finally\<close> block of every operation: close the cursor, then the connection.
  Reading an unbound local raises UnboundLocalError, which replaces the pending
  exception \<open>exc\<close> and skips the rest of the block.
\<close>

definition finally_close :: "error option \<Rightarrow> locals \<Rightarrow> world \<Rightarrow> (error + unit) \<times> world" where
  "finally_close exc l w =
     (case cur l of
        None \<Rightarrow> (Inl (UnboundLocalError ''cur''), w)
      | Some c \<Rightarrow>
          (case conn l of
             None \<Rightarrow> (Inl (UnboundLocalError ''conn''), cur_close w)
           | Some cn \<Rightarrow>
               (case exc of None \<Rightarrow> Inr () | Some e \<Rightarrow> Inl e, conn_close (cur_close w))))"

text \<open>
  What follows the \<open>try\<close> block of the three provisioning operations: the handler logs
  and re-raises, then the \<open>finally\<close> block runs.
\<close>

definition except_finally ::
  "string \<Rightarrow> error option \<times> locals \<times> world \<Rightarrow> (error + unit) \<times> world" where
  "except_finally name outcome =
     (case outcome of (exc, l, w) \<Rightarrow>
        finally_close exc l
          (case exc of
             None \<Rightarrow> w
           | Some e \<Rightarrow> logging_error (''Error in '' @ name @ '': '' @ message e) w))"

definition create_database_try :: "config \<Rightarrow> world \<Rightarrow> error option \<times> locals \<times> world" where
  "create_database_try cfg w =
     (case get_connection cfg ''postgres'' w of
        (Inl e, w1) \<Rightarrow> (Some e, \<lparr>conn = None, cur = None\<rparr>, w1)
      | (Inr c0, w1) \<Rightarrow>
          let c1 = c0\<lparr>autocommit := True\<rparr> in
          (case conn_cursor w1 of (k0, w2) \<Rightarrow>
             (case cur_execute (SelectDatabase (dbname cfg)) c1 w2 of
                Inl e \<Rightarrow> (Some e, \<lparr>conn = Some c1, cur = Some k0\<rparr>, w2)
              | Inr (k1, c2, w3) \<Rightarrow>
                  if k1 = []
                  then (case cur_execute (CreateDatabase (dbname cfg)) c2 w3 of
                          Inl e \<Rightarrow> (Some e, \<lparr>conn = Some c2, cur = Some k1\<rparr>, w3)
                        | Inr (k2, c3, w4) \<Rightarrow>
                            (None, \<lparr>conn = Some c3, cur = Some k2\<rparr>,
                             logging_info (''Database '' @ dbname cfg
                                           @ '' created successfully'') w4))
                  else (None, \<lparr>conn = Some c2, cur = Some (tl k1)\<rparr>,
                        logging_info (''Database '' @ dbname cfg
                                      @ '' already exists'') w3))))"

definition create_database :: "config \<Rightarrow> world \<Rightarrow> (error + unit) \<times> world" where
  "create_database cfg w = except_finally ''create_database'' (create_database_try cfg w)"

definition create_schema_try :: "config \<Rightarrow> world \<Rightarrow> error option \<times> locals \<times> world" where
  "create_schema_try cfg w =
     (case get_connection cfg (dbname cfg) w of
        (Inl e, w1) \<Rightarrow> (Some e, \<lparr>conn = None, cur = None\<rparr>, w1)
      | (Inr c0, w1) \<Rightarrow>
          (case conn_cursor w1 of (k0, w2) \<Rightarrow>
             (case cur_execute (CreateSchemaIfNotExists ''warehouse'') c0 w2 of
                Inl e \<Rightarrow> (Some e, \<lparr>conn = Some c0, cur = Some k0\<rparr>, w2)
              | Inr (k1, c1, w3) \<Rightarrow>
                  (None, \<lparr>conn = Some c1, cur = Some k1\<rparr>,
                   logging_info ''Schema 'warehouse' created successfully''
                     (conn_commit c1 w3)))))"

definition create_schema :: "config \<Rightarrow> world \<Rightarrow> (error + unit) \<times> world" where
  "create_schema cfg w = except_finally ''create_schema'' (create_schema_try cfg w)"

definition create_table_try :: "config \<Rightarrow> world \<Rightarrow> error option \<times> locals \<times> world" where
  "create_table_try cfg w =
     (case get_connection cfg (dbname cfg) w of
        (Inl e, w1) \<Rightarrow> (Some e, \<lparr>conn = None, cur = None\<rparr>, w1)
      | (Inr c0, w1) \<Rightarrow>
          (case conn_cursor w1 of (k0, w2) \<Rightarrow>
             (case cur_execute (CreateTableIfNotExists ''warehouse'' ''shipments''
                                  shipments_def) c0 w2 of
                Inl e \<Rightarrow> (Some e, \<lparr>conn = Some c0, cur = Some k0\<rparr>, w2)
              | Inr (k1, c1, w3) \<Rightarrow>
                  (None, \<lparr>conn = Some c1, cur = Some k1\<rparr>,
                   logging_info ''Table 'shipments' created successfully''
                     (conn_commit c1 w3)))))"

definition create_table :: "config \<Rightarrow> world \<Rightarrow> (error + unit) \<times> world" where
  "create_table cfg w = except_finally ''create_table'' (create_table_try cfg w)"

section \<open>transform\_data\<close>

definition column_mapping :: "(string \<times> string) list" where
  "column_mapping =
     [(''ID'', ''id''),
      (''Warehouse_block'', ''warehouse_block''),
      (''Mode_of_Shipment'', ''mode_of_shipment''),
      (''Customer_care_calls'', ''customer_care_calls''),
      (''Customer_rating'', ''customer_rating''),
      (''Cost_of_the_Product'', ''cost_of_the_product''),
      (''Prior_purchases'', ''prior_purchases''),
      (''Product_importance'', ''product_importance''),
      (''Gender'', ''gender''),
      (''Discount_offered'', ''discount_offered''),
      (''Weight_in_gms'', ''weight_in_gms''),
      (''Reached.on.Time_Y.N'', ''reached_on_time'')]"

definition rename_label :: "string \<Rightarrow> string" where
  "rename_label c = (case map_of column_mapping c of Some c' \<Rightarrow> c' | None \<Rightarrow> c)"

definition rename_columns :: "dataframe \<Rightarrow> dataframe" where
  "rename_columns df = df\<lparr>frame := map (\<lambda>(n, vs). (rename_label n, vs)) (frame df)\<rparr>"

definition numeric_columns :: "string list" where
  "numeric_columns =
     [''customer_care_calls'', ''customer_rating'', ''cost_of_the_product'',
      ''prior_purchases'', ''discount_offered'', ''weight_in_gms'', ''reached_on_time'']"

text \<open>
  \<open>pd.to_numeric(s, errors='coerce')\<close>. \<open>parse\<close> is pandas' reading of a text as a
  number (\<open>None\<close> when the text is no number). A DataFrame argument is refused.
\<close>

fun to_numeric_cell :: "(string \<Rightarrow> int option) \<Rightarrow> cell \<Rightarrow> cell" where
  "to_numeric_cell parse (Num n) = Num n"
| "to_numeric_cell parse (Str s) = (case parse s of Some n \<Rightarrow> Num n | None \<Rightarrow> Null)"
| "to_numeric_cell parse Null = Null"

fun to_numeric :: "(string \<Rightarrow> int option) \<Rightarrow> selection \<Rightarrow> error + cell list" where
  "to_numeric parse (Series vs) = Inr (map (to_numeric_cell parse) vs)"
| "to_numeric parse (Frame sel) =
     Inl (TypeError ''arg must be a list, tuple, 1-d array, or Series'')"

text \<open>
  The loop over \<open>numeric_columns\<close>, on the DataFrame object at address \<open>b\<close>, which it
  updates in place.
\<close>

fun coerce_columns ::
  "(string \<Rightarrow> int option) \<Rightarrow> string list \<Rightarrow> nat \<Rightarrow> world \<Rightarrow> (error + unit) \<times> world" where
  "coerce_columns parse [] b w = (Inr (), w)"
| "coerce_columns parse (c # cs) b w =
     (case getitem (heap w ! b) c of
        Inl e \<Rightarrow> (Inl e, w)
      | Inr sel \<Rightarrow>
          (case to_numeric parse sel of
             Inl e \<Rightarrow> (Inl e, w)
           | Inr s \<Rightarrow>
               coerce_columns parse cs b
                 (w\<lparr>heap := (heap w)[b := setitem (heap w ! b) c s]\<rparr>)))"

definition fill_values :: "(string \<times> int) list" where
  "fill_values =
     [(''customer_care_calls'', 0), (''prior_purchases'', 0), (''discount_offered'', 0)]"

fun fill_cell :: "int \<Rightarrow> cell \<Rightarrow> cell" where
  "fill_cell z Null = Num z"
| "fill_cell z (Num n) = Num n"
| "fill_cell z (Str s) = Str s"

text \<open>\<open>df.fillna({label: value, ...})\<close>: a new DataFrame.\<close>

definition fillna :: "(string \<times> int) list \<Rightarrow> dataframe \<Rightarrow> dataframe" where
  "fillna fills df =
     df\<lparr>frame := map (\<lambda>(n, vs). (n, case map_of fills n of
                                        Some z \<Rightarrow> map (fill_cell z) vs
                                      | None \<Rightarrow> vs)) (frame df)\<rparr>"

text \<open>
  \<open>transform_data(df)\<close>, with \<open>df\<close> the address \<open>a\<close> of the input batch. The result is
  the address of the transformed batch.
\<close>

definition transform_data ::
  "(string \<Rightarrow> int option) \<Rightarrow> nat \<Rightarrow> world \<Rightarrow> (error + nat) \<times> world" where
  "transform_data parse a w =
     (case validate_data (heap w ! a) of
        Inl e \<Rightarrow> (Inl e, logging_error (''Error in transform_data: '' @ message e) w)
      | Inr ok \<Rightarrow>
          let b = length (heap w);
              w1 = w\<lparr>heap := heap w @ [heap w ! a]\<rparr>;
              w2 = w1\<lparr>heap := (heap w1)[b := rename_columns (heap w1 ! b)]\<rparr>
          in (case coerce_columns parse numeric_columns b w2 of
                (Inl e, w3) \<Rightarrow>
                  (Inl e, logging_error (''Error in transform_data: '' @ message e) w3)
              | (Inr u, w3) \<Rightarrow>
                  (Inr (length (heap w3)),
                   logging_info ''Data transformation completed successfully''
                     (w3\<lparr>heap := heap w3 @ [fillna fill_values (heap w3 ! b)]\<rparr>))))"

section \<open>load\_data\<close>

fun str_nat :: "nat \<Rightarrow> string" where
  "str_nat n =
     (if n < 10 then [char_of (48 + n)] else str_nat (n div 10) @ [char_of (48 + n mod 10)])"

text \<open>The statement that \<open>insert_query\<close> spells out, for one parameter tuple.\<close>

definition insert_query :: "string list \<Rightarrow> cell list \<Rightarrow> statement" where
  "insert_query cols r =
     InsertOnConflictUpdate ''warehouse'' ''shipments'' cols r ''id''
       (filter (\<lambda>c. c \<noteq> ''id'') cols)"

definition load_data_try :: "config \<Rightarrow> nat \<Rightarrow> world \<Rightarrow> error option \<times> locals \<times> world" where
  "load_data_try cfg a w =
     (case get_connection cfg (dbname cfg) w of
        (Inl e, w1) \<Rightarrow> (Some e, \<lparr>conn = None, cur = None\<rparr>, w1)
      | (Inr c0, w1) \<Rightarrow>
          (case conn_cursor w1 of (k0, w2) \<Rightarrow>
             (case cur_executemany (insert_query (columns (heap w2 ! a)))
                     (records (heap w2 ! a)) c0 w2 of
                (Some e, c1, w3) \<Rightarrow> (Some e, \<lparr>conn = Some c1, cur = Some k0\<rparr>, w3)
              | (None, c1, w3) \<Rightarrow>
                  (None, \<lparr>conn = Some c1, cur = Some k0\<rparr>,
                   logging_info (''Successfully loaded ''
                                 @ str_nat (length (records (heap w2 ! a)))
                                 @ '' records into the database'')
                     (conn_commit c1 w3)))))"

text \<open>
  The handler of \<open>load_data\<close> rolls back before it logs; with \<open>conn\<close> unbound the
  rollback itself raises, and that exception is the pending one when \<open>finally\<close> runs.
\<close>

definition load_data :: "config \<Rightarrow> nat \<Rightarrow> world \<Rightarrow> (error + unit) \<times> world" where
  "load_data cfg a w =
     (case load_data_try cfg a w of (exc, l, w1) \<Rightarrow>
        (case exc of
           None \<Rightarrow> finally_close None l w1
         | Some e \<Rightarrow>
             (case conn l of
                None \<Rightarrow> finally_close (Some (UnboundLocalError ''conn'')) l w1
              | Some cn \<Rightarrow>
                  finally_close (Some e) (l\<lparr>conn := Some (conn_rollback cn w1)\<rparr>)
                    (logging_error (''Error in load_data: '' @ message e) w1))))"

section \<open>main\<close>

definition read_csv :: "string \<Rightarrow> world \<Rightarrow> (error + nat) \<times> world" where
  "read_csv path w =
     (case files w path of
        None \<Rightarrow> (Inl (FileNotFoundError path), w)
      | Some df \<Rightarrow> (Inr (length (heap w)), w\<lparr>heap := heap w @ [df]\<rparr>))"

definition etl_failed :: "error \<Rightarrow> world \<Rightarrow> (error + unit) \<times> world" where
  "etl_failed e w = (Inl e, logging_error (''ETL process failed: '' @ message e) w)"

definition main :: "(string \<Rightarrow> int option) \<Rightarrow> config \<Rightarrow> world \<Rightarrow> (error + unit) \<times> world" where
  "main parse cfg w =
     (case create_database cfg w of
        (Inl e, w1) \<Rightarrow> etl_failed e w1
      | (Inr u1, w1) \<Rightarrow>
     (case create_schema cfg w1 of
        (Inl e, w2) \<Rightarrow> etl_failed e w2
      | (Inr u2, w2) \<Rightarrow>
     (case create_table cfg w2 of
        (Inl e, w3) \<Rightarrow> etl_failed e w3
      | (Inr u3, w3) \<Rightarrow>
     (case read_csv ''shipments.csv'' w3 of
        (Inl e, w4) \<Rightarrow> etl_failed e w4
      | (Inr df, w4) \<Rightarrow>
     (case transform_data parse df
             (logging_info ''Data extracted from CSV successfully'' w4) of
        (Inl e, w5) \<Rightarrow> etl_failed e w5
      | (Inr df_transformed, w5) \<Rightarrow>
     (case load_data cfg df_transformed w5 of
        (Inl e, w6) \<Rightarrow> etl_failed e w6
      | (Inr u6, w6) \<Rightarrow>
          (Inr (), logging_info ''ETL process completed successfully'' w6)))))))"

section \<open>The provisioning sequence\<close>

text \<open>
  The first three calls of \<open>main\<close> on their own: ensure database, ensure schema,
  ensure table, stopping at the first that raises.
\<close>

definition provision :: "config \<Rightarrow> world \<Rightarrow> (error + unit) \<times> world" where
  "provision cfg w =
     (case create_database cfg w of
        (Inl e, w1) \<Rightarrow> (Inl e, w1)
      | (Inr u1, w1) \<Rightarrow>
          (case create_schema cfg w1 of
             (Inl e, w2) \<Rightarrow> (Inl e, w2)
           | (Inr u2, w2) \<Rightarrow> create_table cfg w2))"

section \<open>The words of the specification\<close>

text \<open>
  The cell that the specification asks for under the target label \<open>c\<close>: in the seven
  numeric columns a text that is no number becomes the null marker, then the null
  marker becomes 0 in the three zero-fill columns; every other cell stays as it is.
\<close>

definition spec_cell :: "(string \<Rightarrow> int option) \<Rightarrow> string \<Rightarrow> cell \<Rightarrow> cell" where
  "spec_cell parse c v =
     (if c \<in> set numeric_columns
      then (let u = (case v of
                       Str s \<Rightarrow> (case parse s of None \<Rightarrow> Null | Some n \<Rightarrow> Num n)
                     | Num n \<Rightarrow> Num n
                     | Null \<Rightarrow> Null)
            in if u = Null \<and> c \<in> {''customer_care_calls'', ''prior_purchases'', ''discount_offered''}
               then Num 0 else u)
      else v)"

text \<open>A rating in [1,5]; an on-time flag that is 0 or 1; a cell that holds text.\<close>

fun rating_ok :: "cell \<Rightarrow> bool" where
  "rating_ok (Num n) = (1 \<le> n \<and> n \<le> 5)"
| "rating_ok (Str s) = False"
| "rating_ok Null = False"

fun flag_ok :: "cell \<Rightarrow> bool" where
  "flag_ok (Num n) = (n = 0 \<or> n = 1)"
| "flag_ok (Str s) = False"
| "flag_ok Null = False"

fun is_text :: "cell \<Rightarrow> bool" where
  "is_text (Str s) = True"
| "is_text (Num n) = False"
| "is_text Null = False"

text \<open>The three provisioning operations as the specification words them, on the catalogs.\<close>

definition ensure_database :: "string \<Rightarrow> pg_state \<Rightarrow> pg_state" where
  "ensure_database db s =
     (if db \<in> set (databases s) then s else s\<lparr>databases := databases s @ [db]\<rparr>)"

definition ensure_schema :: "string \<Rightarrow> pg_state \<Rightarrow> pg_state" where
  "ensure_schema db s =
     (if (db, ''warehouse'') \<in> set (schemas s) then s
      else s\<lparr>schemas := schemas s @ [(db, ''warehouse'')]\<rparr>)"

definition ensure_table :: "string \<Rightarrow> pg_state \<Rightarrow> pg_state" where
  "ensure_table db s =
     (if (db, ''warehouse'', ''shipments'') \<in> set (map fst (tables s)) then s
      else s\<lparr>tables := tables s @ [((db, ''warehouse'', ''shipments''),
                                      \<lparr>table_def = shipments_def, table_rows = []\<rparr>)]\<rparr>)"

section \<open>Notions used in the properties\<close>

text \<open>A label that selects exactly one column.\<close>

definition unique_label :: "string \<Rightarrow> (string \<times> cell list) list \<Rightarrow> bool" where
  "unique_label c xs \<longleftrightarrow> length (filter (\<lambda>(n, vs). n = c) xs) = 1"

text \<open>The rows stored in a table; none when the table does not exist.\<close>

definition rows_at :: "string \<times> string \<times> string \<Rightarrow> pg_state \<Rightarrow> stored_row list" where
  "rows_at k s = (case map_of (tables s) k of None \<Rightarrow> [] | Some t \<Rightarrow> table_rows t)"

fun is_insert :: "statement \<Rightarrow> bool" where
  "is_insert (InsertOnConflictUpdate sch tbl cols vals key set_cols) = True"
| "is_insert st = False"

text \<open>
  A world whose files, heap objects and stored rows are those of another: what a step
  that writes no row data leaves behind.
\<close>

definition untouched :: "world \<Rightarrow> world \<Rightarrow> bool" where
  "untouched w w' \<longleftrightarrow>
     files w' = files w \<and> heap w' = heap w \<and> (\<forall>k. rows_at k (server w') = rows_at k (server w))"

text \<open>
  A server on which provisioning can go through: it answers both connection requests,
  has the bootstrap database, and lets the role create databases.
\<close>

definition provisionable :: "config \<Rightarrow> world \<Rightarrow> bool" where
  "provisionable cfg w \<longleftrightarrow>
     reachable w (connect_args_of cfg ''postgres'')
     \<and> reachable w (connect_args_of cfg (dbname cfg))
     \<and> ''postgres'' \<in> set (databases (server w))
     \<and> createdb w"

text \<open>What no operation changes once it has returned: the service and the resources held.\<close>

definition same_service :: "world \<Rightarrow> world \<Rightarrow> bool" where
  "same_service w w' \<longleftrightarrow>
     reachable w' = reachable w \<and> createdb w' = createdb w \<and> storable w' = storable w
     \<and> clock w' = clock w \<and> open_connections w' = open_connections w
     \<and> open_cursors w' = open_cursors w \<and> heap w' = heap w \<and> files w' = files w"










section \<open>Sample inputs\<close>

text \<open>
  A batch of two rows with the twelve required columns and one more, with text and
  nulls in numeric columns.
\<close>

definition sample_batch :: dataframe where
  "sample_batch =
     \<lparr>index_size = 2,
      frame =
        [(''ID'', [Num 1, Num 2]),
         (''Warehouse_block'', [Str ''A'', Str ''B'']),
         (''Mode_of_Shipment'', [Str ''Ship'', Str ''Road'']),
         (''Customer_care_calls'', [Num 4, Str ''many'']),
         (''Customer_rating'', [Num 1, Num 5]),
         (''Cost_of_the_Product'', [Num 177, Null]),
         (''Prior_purchases'', [Null, Num 3]),
         (''Product_importance'', [Str ''low'', Null]),
         (''Gender'', [Str ''F'', Str ''M'']),
         (''Discount_offered'', [Str ''7'', Num 10]),
         (''Weight_in_gms'', [Num 1233, Str ''heavy'']),
         (''Reached.on.Time_Y.N'', [Num 1, Num 0]),
         (''Notes'', [Str ''fragile'', Null])]\<rparr>"

text \<open>
  A server that stores numbers in INTEGER and TIMESTAMP columns, text within the
  length of a VARCHAR column, and NULL anywhere.
\<close>

definition strict_storable :: "col_type \<Rightarrow> cell \<Rightarrow> bool" where
  "strict_storable ty v =
     (case v of
        Null \<Rightarrow> True
      | Num n \<Rightarrow> ty = INTEGER \<or> ty = TIMESTAMP
      | Str s \<Rightarrow> (case ty of VARCHAR k \<Rightarrow> length s \<le> k | INTEGER \<Rightarrow> False | TIMESTAMP \<Rightarrow> False))"

text \<open>A reading of text as numbers that knows the text 7 only.\<close>

definition sample_parse :: "string \<Rightarrow> int option" where
  "sample_parse s = (if s = ''7'' then Some 7 else None)"

text \<open>
  A world with a fresh server, the sample batch on the heap at address 0 and in the
  file \<open>shipments.csv\<close>. The configuration is the one of an empty environment.
\<close>

definition sample_world :: world where
  "sample_world =
     \<lparr>reachable = (\<lambda>args. True), createdb = True, storable = strict_storable, clock = 1000,
      server = \<lparr>databases = [''postgres''], schemas = [], tables = []\<rparr>,
      open_connections = 0, open_cursors = 0, logs = [], heap = [sample_batch],
      files = (\<lambda>path. if path = ''shipments.csv'' then Some sample_batch else None)\<rparr>"

definition sample_config :: config where
  "sample_config = DB_CONFIG (\<lambda>name. None)"

text \<open>The sample batch with one more column, labelled like a target column.\<close>

definition clashing_batch :: dataframe where
  "clashing_batch =
     sample_batch\<lparr>frame := frame sample_batch @ [(''customer_care_calls'', [Num 0, Num 0])]\<rparr>"

text \<open>
  The sample batch without the Gender column; with a rating of 9; with a rating of 9
  and a rating that is text.
\<close>

definition incomplete_batch :: dataframe where
  "incomplete_batch = sample_batch\<lparr>frame := filter (\<lambda>(n, vs). n \<noteq> ''Gender'') (frame sample_batch)\<rparr>"

definition out_of_range_batch :: dataframe where
  "out_of_range_batch =
     \<lparr>index_size = 2,
      frame = map (\<lambda>(n, vs). if n = ''Customer_rating'' then (n, [Num 3, Num 9]) else (n, vs))
                (frame sample_batch)\<rparr>"

definition mixed_rating_batch :: dataframe where
  "mixed_rating_batch =
     \<lparr>index_size = 2,
      frame = map (\<lambda>(n, vs). if n = ''Customer_rating'' then (n, [Num 9, Str ''bad'']) else (n, vs))
                (frame sample_batch)\<rparr>"

text \<open>The sample batch with a second column labelled Customer\_rating.\<close>

definition repeated_rating_batch :: dataframe where
  "repeated_rating_batch =
     sample_batch\<lparr>frame := frame sample_batch @ [(''Customer_rating'', [Num 2, Num 3])]\<rparr>"





section \<open>Selecting columns\<close>

lemma filter_label_unique:
  "distinct (map fst xs) \<Longrightarrow> (c, vs) \<in> set xs \<Longrightarrow> filter (\<lambda>(n, vs). n = c) xs = [(c, vs)]"
proof (induction xs)
  case Nil
  then show ?case by simp
next
  case (Cons x xs)
  show ?case
  proof (cases "fst x = c")
    case True
    with Cons.prems have "x = (c, vs)" by (auto simp: rev_image_eqI)
    moreover from Cons.prems True have "filter (\<lambda>(n, vs). n = c) xs = []"
      by (auto simp: filter_empty_conv rev_image_eqI)
    ultimately show ?thesis by simp
  next
    case False
    with Cons show ?thesis by (auto split: prod.splits)
  qed
qed

lemma getitem_unique:
  "distinct (columns df) \<Longrightarrow> (c, vs) \<in> set (frame df) \<Longrightarrow> getitem df c = Inr (Series vs)"
  by (simp add: getitem_def columns_def filter_label_unique)

section \<open>Properties of validate\_data\<close>

lemma between_text:
  "\<exists>v \<in> set vs. is_text v \<Longrightarrow>
   between lo hi vs = Inl (TypeError ''>= not supported between instances of str and int'')"
proof (induction vs)
  case Nil
  then show ?case by simp
next
  case (Cons v vs)
  then show ?case by (cases v) (auto split: sum.splits)
qed

lemma between_no_text:
  "\<forall>v \<in> set vs. \<not> is_text v \<Longrightarrow> between 1 5 vs = Inr (map rating_ok vs)"
proof (induction vs)
  case Nil
  then show ?case by simp
next
  case (Cons v vs)
  then show ?case by (cases v) auto
qed

lemma isin_flag_ok: "isin [0, 1] vs = map flag_ok vs"
proof -
  have "isin_cell [0, 1] v = flag_ok v" for v by (cases v) auto
  then show ?thesis by (simp add: isin_def)
qed

lemma all_true_map: "all_true (map P vs) \<longleftrightarrow> (\<forall>v \<in> set vs. P v)"
  by (simp add: all_true_def list_all_iff)

text \<open>
  The verdict of \<open>validate_data\<close>, check by check, when each of the two checked
  labels selects one column.
\<close>

lemma validate_data_verdict:
  assumes "getitem df ''Customer_rating'' = Inr (Series rating)"
    and "getitem df ''Reached.on.Time_Y.N'' = Inr (Series flag)"
  shows "validate_data df =
     (if \<not> set required_columns \<subseteq> set (columns df)
      then Inl (AssertionError ''Missing required columns'')
      else if \<exists>v \<in> set rating. is_text v
      then Inl (TypeError ''>= not supported between instances of str and int'')
      else if \<exists>v \<in> set rating. \<not> rating_ok v
      then Inl (AssertionError ''Invalid customer ratings'')
      else if \<exists>v \<in> set flag. \<not> flag_ok v
      then Inl (AssertionError ''Invalid reached on time values'')
      else Inr True)"
proof -
  have req: "list_all (\<lambda>c. c \<in> set (columns df)) required_columns
             \<longleftrightarrow> set required_columns \<subseteq> set (columns df)"
    by (auto simp: list_all_iff)
  have r: "check_rating df =
     (if \<exists>v \<in> set rating. is_text v
      then Inl (TypeError ''>= not supported between instances of str and int'')
      else if \<exists>v \<in> set rating. \<not> rating_ok v
      then Inl (AssertionError ''Invalid customer ratings'')
      else Inr True)"
    using assms(1)
    by (auto simp: check_rating_def between_text between_no_text all_true_map)
  have f: "check_flag df =
     (if \<exists>v \<in> set flag. \<not> flag_ok v
      then Inl (AssertionError ''Invalid reached on time values'')
      else Inr True)"
    using assms(2) by (auto simp: check_flag_def isin_flag_ok all_true_map)
  show ?thesis unfolding validate_data_def req r f by auto
qed

lemma validate_data_required:
  "validate_data df = Inr ok \<Longrightarrow> set required_columns \<subseteq> set (columns df)"
  by (auto simp: validate_data_def list_all_iff split: if_splits)

text \<open>
  C10 (as amended). Validation checks that the required columns are present, not that
  they are the only ones: a batch in which Customer\_rating and Reached.on.Time\_Y.N
  each label exactly one column, that has the twelve required columns, every
  Customer\_rating value a number from 1 to 5 and every Reached.on.Time\_Y.N value 0 or
  1, is accepted, whatever further columns it has.
\<close>

theorem validate_data_accepts_extra_columns:
  assumes "set required_columns \<subseteq> set (columns df)"
    and "getitem df ''Customer_rating'' = Inr (Series rating)"
    and "\<forall>v \<in> set rating. rating_ok v"
    and "getitem df ''Reached.on.Time_Y.N'' = Inr (Series flag)"
    and "\<forall>v \<in> set flag. flag_ok v"
  shows "validate_data df = Inr True"
proof -
  have "\<forall>v \<in> set rating. \<not> is_text v"
  proof
    fix v assume "v \<in> set rating"
    with assms(3) have "rating_ok v" by simp
    then show "\<not> is_text v" by (cases v) auto
  qed
  with assms show ?thesis by (simp add: validate_data_verdict [OF assms(2,4)])
qed

theorem validate_data_accepts_extra_columns_witness:
  "''Notes'' \<in> set (columns sample_batch) \<and> ''Notes'' \<notin> set required_columns
   \<and> set required_columns \<subseteq> set (columns sample_batch)
   \<and> getitem sample_batch ''Customer_rating'' = Inr (Series [Num 1, Num 5])
   \<and> getitem sample_batch ''Reached.on.Time_Y.N'' = Inr (Series [Num 1, Num 0])
   \<and> validate_data sample_batch = Inr True"
proof -
  have q: "set required_columns \<subseteq> set (columns sample_batch)"
    by (simp add: sample_batch_def columns_def required_columns_def)
  have r: "getitem sample_batch ''Customer_rating'' = Inr (Series [Num 1, Num 5])"
    by (simp add: getitem_def sample_batch_def)
  have f: "getitem sample_batch ''Reached.on.Time_Y.N'' = Inr (Series [Num 1, Num 0])"
    by (simp add: getitem_def sample_batch_def)
  have n: "''Notes'' \<in> set (columns sample_batch) \<and> ''Notes'' \<notin> set required_columns"
    by (simp add: sample_batch_def columns_def required_columns_def)
  from validate_data_accepts_extra_columns [OF q r _ f] q r f n show ?thesis by simp
qed

text \<open>
  C10 as stated fails for a batch whose further column is a second one labelled
  Customer\_rating: all twelve columns are there and every rating and flag is in range,
  but the selection is a DataFrame, which has no \<open>between\<close>.
\<close>

theorem repeated_rating_label_counterexample:
  "set required_columns \<subseteq> set (columns repeated_rating_batch)
   \<and> getitem repeated_rating_batch ''Customer_rating''
       = Inr (Frame [(''Customer_rating'', [Num 1, Num 5]), (''Customer_rating'', [Num 2, Num 3])])
   \<and> rating_ok (Num 1) \<and> rating_ok (Num 5) \<and> rating_ok (Num 2) \<and> rating_ok (Num 3)
   \<and> getitem repeated_rating_batch ''Reached.on.Time_Y.N'' = Inr (Series [Num 1, Num 0])
   \<and> flag_ok (Num 1) \<and> flag_ok (Num 0)
   \<and> validate_data repeated_rating_batch
       = Inl (AttributeError ''DataFrame object has no attribute between'')"
  by (simp add: validate_data_def check_rating_def getitem_def repeated_rating_batch_def
      sample_batch_def columns_def required_columns_def)

section \<open>Properties of get\_connection\<close>

text \<open>
  C9. The connection parameters come from the environment, and the configured port is
  meant to reach both the bootstrap and the target connection. With \<open>DB_PORT=5433\<close>
  the target connection is opened with port 5433, but the bootstrap connection is
  opened with no port at all.
\<close>

theorem bootstrap_connection_omits_port:
  "arg_port (connect_args_of (DB_CONFIG [''DB_PORT'' \<mapsto> ''5433'']) ''postgres'') = None
   \<and> arg_port (connect_args_of (DB_CONFIG [''DB_PORT'' \<mapsto> ''5433''])
                 (dbname (DB_CONFIG [''DB_PORT'' \<mapsto> ''5433'']))) = Some ''5433''"
  by (simp add: connect_args_of_def DB_CONFIG_def getenv_def)

section \<open>Properties of transform\_data\<close>

lemma unique_label_sel:
  assumes "unique_label c xs"
  obtains vs where "filter (\<lambda>(n, vs). n = c) xs = [(c, vs)]"
proof -
  from assms obtain x where x: "filter (\<lambda>(n, vs). n = c) xs = [x]"
    by (auto simp: unique_label_def length_Suc_conv)
  then have "x \<in> set (filter (\<lambda>(n, vs). n = c) xs)" by simp
  then have "fst x = c" by auto
  with x that show thesis by (cases x) auto
qed

lemma setitem_unique:
  assumes "filter (\<lambda>(n, vs). n = c) (frame df) = [(c, vs)]"
  shows "setitem df c (map f vs)
         = df\<lparr>frame := map (\<lambda>(n, us). (n, if n = c then map f us else us)) (frame df)\<rparr>"
proof -
  have mem: "\<And>n us. (n, us) \<in> set (frame df) \<Longrightarrow> n = c \<Longrightarrow> us = vs"
  proof -
    fix n us assume "(n, us) \<in> set (frame df)" "n = c"
    then have "(n, us) \<in> set (filter (\<lambda>(n, vs). n = c) (frame df))" by simp
    with assms show "us = vs" by simp
  qed
  have "(c, vs) \<in> set (filter (\<lambda>(n, vs). n = c) (frame df))" using assms by simp
  then have "c \<in> set (columns df)" by (auto simp: columns_def intro: rev_image_eqI)
  moreover have "map (\<lambda>(n, us). if n = c then (n, map f vs) else (n, us)) (frame df)
        = map (\<lambda>(n, us). (n, if n = c then map f us else us)) (frame df)"
    by (rule map_cong) (auto dest: mem)
  ultimately show ?thesis by (simp add: setitem_def)
qed

lemma unique_label_map_snd:
  "unique_label c (map (\<lambda>(n, us). (n, g n us)) xs) = unique_label c xs"
  by (simp add: unique_label_def filter_map comp_def case_prod_unfold)

text \<open>The loop, when every label it visits selects one column.\<close>

lemma coerce_columns_unique:
  assumes "b < length (heap w)"
    and "\<forall>c \<in> set cs. unique_label c (frame (heap w ! b))"
    and "distinct cs"
  shows "coerce_columns parse cs b w
         = (Inr (), w\<lparr>heap := (heap w)[b := (heap w ! b)\<lparr>frame :=
               map (\<lambda>(n, us). (n, if n \<in> set cs then map (to_numeric_cell parse) us else us))
                   (frame (heap w ! b))\<rparr>]\<rparr>)"
  using assms
proof (induction cs arbitrary: w)
  case Nil
  then show ?case by (simp add: case_prod_unfold)
next
  case (Cons c cs)
  from Cons.prems obtain vs where sel: "filter (\<lambda>(n, vs). n = c) (frame (heap w ! b)) = [(c, vs)]"
    by (auto elim: unique_label_sel)
  let ?d = "(heap w ! b)\<lparr>frame := map (\<lambda>(n, us). (n, if n = c then map (to_numeric_cell parse) us else us))
                   (frame (heap w ! b))\<rparr>"
  let ?w = "w\<lparr>heap := (heap w)[b := ?d]\<rparr>"
  have get: "getitem (heap w ! b) c = Inr (Series vs)"
    using sel by (simp add: getitem_def)
  have step: "coerce_columns parse (c # cs) b w = coerce_columns parse cs b ?w"
    using get setitem_unique [OF sel, of "to_numeric_cell parse"] by simp
  have b: "b < length (heap ?w)" using Cons.prems by simp
  have hb: "heap ?w ! b = ?d" using Cons.prems by simp
  have u: "\<forall>c' \<in> set cs. unique_label c' (frame (heap ?w ! b))"
    using Cons.prems(2) unfolding hb by (simp add: unique_label_map_snd)
  have d: "distinct cs" using Cons.prems by simp
  have ih: "coerce_columns parse cs b ?w
        = (Inr (), ?w\<lparr>heap := (heap ?w)[b := (heap ?w ! b)\<lparr>frame :=
               map (\<lambda>(n, us). (n, if n \<in> set cs then map (to_numeric_cell parse) us else us))
                   (frame (heap ?w ! b))\<rparr>]\<rparr>)"
    by (rule Cons.IH [OF b u d])
  have m: "map (\<lambda>(n, us). (n, if n \<in> set cs then map (to_numeric_cell parse) us else us))
                   (frame ?d)
      = map (\<lambda>(n, us). (n, if n \<in> set (c # cs) then map (to_numeric_cell parse) us else us))
                   (frame (heap w ! b))"
    using Cons.prems(3) by (auto simp: comp_def)
  have "(heap ?w)[b := ?d\<lparr>frame :=
               map (\<lambda>(n, us). (n, if n \<in> set cs then map (to_numeric_cell parse) us else us))
                   (frame ?d)\<rparr>]
        = (heap w)[b := (heap w ! b)\<lparr>frame :=
               map (\<lambda>(n, us). (n, if n \<in> set (c # cs) then map (to_numeric_cell parse) us else us))
                   (frame (heap w ! b))\<rparr>]"
    unfolding m by simp
  then show ?case unfolding step ih hb by simp
qed

lemma column_mapping_sources: "distinct (map fst column_mapping)"
  by (simp add: column_mapping_def)

lemma column_mapping_targets: "distinct (map snd column_mapping)"
  by (simp add: column_mapping_def)

lemma rename_label_source: "(s, c) \<in> set column_mapping \<Longrightarrow> rename_label s = c"
  by (simp add: rename_label_def column_mapping_sources)

lemma rename_label_target:
  assumes "(s, c) \<in> set column_mapping" and "n \<noteq> c"
  shows "rename_label n = c \<longleftrightarrow> n = s"
proof
  assume r: "rename_label n = c"
  with assms(2) have "map_of column_mapping n = Some c"
    by (auto simp: rename_label_def split: option.splits)
  then have "(n, c) \<in> set column_mapping" by (rule map_of_SomeD)
  moreover have "inj_on snd (set column_mapping)"
    using column_mapping_targets by (simp add: distinct_map)
  ultimately have "(n, c) = (s, c)"
    using assms(1) by (intro inj_onD [where f = snd and A = "set column_mapping"]) simp_all
  then show "n = s" by simp
next
  assume "n = s"
  with assms(1) show "rename_label n = c" by (simp add: rename_label_source)
qed

lemma rename_unique:
  assumes "distinct (map fst xs)" and "(s, c) \<in> set column_mapping"
    and "s \<in> fst ` set xs" and "c \<notin> fst ` set xs"
  shows "unique_label c (map (\<lambda>(n, vs). (rename_label n, vs)) xs)"
proof -
  from assms(3) obtain vs where m: "(s, vs) \<in> set xs" by auto
  have "filter (\<lambda>(n, vs). rename_label n = c) xs = filter (\<lambda>(n, vs). n = s) xs"
  proof (rule filter_cong [OF refl])
    fix x assume "x \<in> set xs"
    with assms(4) have "fst x \<noteq> c" by auto
    with assms(2) show "(case x of (n, vs) \<Rightarrow> rename_label n = c) = (case x of (n, vs) \<Rightarrow> n = s)"
      by (cases x) (simp add: rename_label_target)
  qed
  also have "\<dots> = [(s, vs)]" using assms(1) m by (rule filter_label_unique)
  finally show ?thesis
    by (simp add: unique_label_def filter_map comp_def case_prod_unfold)
qed

lemma numeric_columns_sources:
  "c \<in> set numeric_columns \<Longrightarrow> \<exists>s \<in> set required_columns. (s, c) \<in> set column_mapping"
  by (auto simp: numeric_columns_def required_columns_def column_mapping_def)

lemma spec_cell_code:
  "(case map_of fill_values c of
      Some z \<Rightarrow> map (fill_cell z) (if c \<in> set numeric_columns then map (to_numeric_cell parse) vs else vs)
    | None \<Rightarrow> (if c \<in> set numeric_columns then map (to_numeric_cell parse) vs else vs))
   = map (spec_cell parse c) vs"
proof -
  have cellwise: "(case map_of fill_values c of
      Some z \<Rightarrow> fill_cell z (if c \<in> set numeric_columns then to_numeric_cell parse v else v)
    | None \<Rightarrow> (if c \<in> set numeric_columns then to_numeric_cell parse v else v))
     = spec_cell parse c v" for v
    by (cases v)
       (auto simp: spec_cell_def fill_values_def numeric_columns_def split: option.splits)
  have "map (spec_cell parse c) vs = map (\<lambda>v. case map_of fill_values c of
      Some z \<Rightarrow> fill_cell z (if c \<in> set numeric_columns then to_numeric_cell parse v else v)
    | None \<Rightarrow> (if c \<in> set numeric_columns then to_numeric_cell parse v else v)) vs"
    by (simp only: cellwise)
  also have "\<dots> = (case map_of fill_values c of
      Some z \<Rightarrow> map (fill_cell z) (if c \<in> set numeric_columns then map (to_numeric_cell parse) vs else vs)
    | None \<Rightarrow> (if c \<in> set numeric_columns then map (to_numeric_cell parse) vs else vs))"
    by (cases "map_of fill_values c") simp_all
  finally show ?thesis by simp
qed

lemma list_update_same: "\<exists>d. xs = xs[b := d]"
  by (rule exI [of _ "xs ! b"]) simp

text \<open>The loop writes to the object at \<open>b\<close> only.\<close>

lemma coerce_columns_heap:
  "b < length (heap w) \<Longrightarrow> \<exists>d. heap (snd (coerce_columns parse cs b w)) = (heap w)[b := d]"
proof (induction cs arbitrary: w)
  case Nil
  then show ?case by (simp add: list_update_same)
next
  case (Cons c cs)
  show ?case
  proof (cases "getitem (heap w ! b) c")
    case (Inl e)
    then show ?thesis by (simp add: list_update_same)
  next
    case (Inr sel)
    show ?thesis
    proof (cases "to_numeric parse sel")
      case (Inl e)
      with \<open>getitem (heap w ! b) c = Inr sel\<close> show ?thesis
        by (simp add: list_update_same)
    next
      case (Inr s)
      let ?w = "w\<lparr>heap := (heap w)[b := setitem (heap w ! b) c s]\<rparr>"
      from Cons.prems have "b < length (heap ?w)" by simp
      from Cons.IH [OF this] obtain d where
        "heap (snd (coerce_columns parse cs b ?w)) = (heap ?w)[b := d]" by blast
      with Inr \<open>getitem (heap w ! b) c = Inr sel\<close> show ?thesis by auto
    qed
  qed
qed

lemma transform_data_heap:
  "(\<exists>d. heap (snd (transform_data parse a w)) = heap w @ [d] \<and> (\<exists>e. fst (transform_data parse a w) = Inl e))
   \<or> (\<exists>d d'. heap (snd (transform_data parse a w)) = heap w @ [d, d']
         \<and> fst (transform_data parse a w) = Inr (Suc (length (heap w))))
   \<or> (heap (snd (transform_data parse a w)) = heap w \<and> (\<exists>e. validate_data (heap w ! a) = Inl e)
         \<and> (\<exists>e. fst (transform_data parse a w) = Inl e))"
proof (cases "validate_data (heap w ! a)")
  case (Inl e)
  then show ?thesis by (simp add: transform_data_def logging_error_def)
next
  case (Inr ok)
  let ?w2 = "w\<lparr>heap := heap w @ [rename_columns (heap w ! a)]\<rparr>"
  have w2: "(w\<lparr>heap := heap w @ [heap w ! a]\<rparr>)\<lparr>heap := (heap (w\<lparr>heap := heap w @ [heap w ! a]\<rparr>))
              [length (heap w) := rename_columns (heap (w\<lparr>heap := heap w @ [heap w ! a]\<rparr>) ! length (heap w))]\<rparr> = ?w2"
    by simp
  have "length (heap w) < length (heap ?w2)" by simp
  from coerce_columns_heap [OF this] obtain d where
    d: "heap (snd (coerce_columns parse numeric_columns (length (heap w)) ?w2)) = heap w @ [d]"
    by auto
  show ?thesis
  proof (cases "coerce_columns parse numeric_columns (length (heap w)) ?w2")
    case (Pair r w3)
    with d have h3: "heap w3 = heap w @ [d]" by simp
    show ?thesis
    proof (cases r)
      case (Inl e)
      with Inr Pair h3 show ?thesis
        unfolding transform_data_def Let_def w2 by (simp add: logging_error_def)
    next
      case (Inr u)
      with \<open>validate_data (heap w ! a) = Inr ok\<close> Pair h3 show ?thesis
        unfolding transform_data_def Let_def w2 by (simp add: logging_info_def)
    qed
  qed
qed

lemma transform_data_closed_form:
  assumes "distinct (columns (heap w ! a))"
    and "validate_data (heap w ! a) = Inr True"
    and "set numeric_columns \<inter> set (columns (heap w ! a)) = {}"
  shows "transform_data parse a w =
     (Inr (Suc (length (heap w))),
      logging_info ''Data transformation completed successfully''
        (w\<lparr>heap := heap w @
           [(heap w ! a)\<lparr>frame := map (\<lambda>(n, us). (n, if n \<in> set numeric_columns
                                  then map (to_numeric_cell parse) us else us))
                              (frame (rename_columns (heap w ! a)))\<rparr>,
            fillna fill_values ((heap w ! a)\<lparr>frame := map (\<lambda>(n, us). (n, if n \<in> set numeric_columns
                                  then map (to_numeric_cell parse) us else us))
                              (frame (rename_columns (heap w ! a)))\<rparr>)]\<rparr>))"
proof -
  let ?df = "heap w ! a"
  let ?b = "length (heap w)"
  let ?w2 = "w\<lparr>heap := heap w @ [rename_columns ?df]\<rparr>"
  have w2: "(w\<lparr>heap := heap w @ [?df]\<rparr>)\<lparr>heap := (heap (w\<lparr>heap := heap w @ [?df]\<rparr>))
              [?b := rename_columns (heap (w\<lparr>heap := heap w @ [?df]\<rparr>) ! ?b)]\<rparr> = ?w2"
    by simp
  have req: "set required_columns \<subseteq> set (columns ?df)"
    using assms(2) by (rule validate_data_required)
  have uniq: "\<forall>c \<in> set numeric_columns. unique_label c (frame (heap ?w2 ! ?b))"
  proof
    fix c assume c: "c \<in> set numeric_columns"
    then obtain s where s: "s \<in> set required_columns" "(s, c) \<in> set column_mapping"
      using numeric_columns_sources by blast
    from s(1) req have "s \<in> fst ` set (frame ?df)" by (auto simp: columns_def)
    moreover from c assms(3) have "c \<notin> fst ` set (frame ?df)" by (auto simp: columns_def)
    ultimately have "unique_label c (map (\<lambda>(n, vs). (rename_label n, vs)) (frame ?df))"
      using assms(1) s(2) by (intro rename_unique [where s = s]) (simp_all add: columns_def)
    then show "unique_label c (frame (heap ?w2 ! ?b))" by (simp add: rename_columns_def)
  qed
  have b: "?b < length (heap ?w2)" by simp
  have d: "distinct numeric_columns" by (simp add: numeric_columns_def)
  note loop = coerce_columns_unique [OF b uniq d, of parse]
  show ?thesis
    unfolding transform_data_def Let_def w2 loop using assms(2)
    by (simp add: rename_columns_def)
qed

lemma sample_world_distinct: "distinct (columns (heap sample_world ! 0))"
  by (simp add: sample_world_def sample_batch_def columns_def)

lemma sample_world_valid: "validate_data (heap sample_world ! 0) = Inr True"
  by (simp add: sample_world_def validate_data_def check_rating_def check_flag_def
      getitem_def all_true_def isin_def sample_batch_def columns_def required_columns_def)

lemma sample_world_no_clash:
  "set numeric_columns \<inter> set (columns (heap sample_world ! 0)) = {}"
  by (simp add: sample_world_def sample_batch_def columns_def numeric_columns_def)

text \<open>
  C1 (as amended). For an input batch with distinct labels that passes validation and
  has no column already labelled like one of the seven numeric target columns,
  \<open>transform_data\<close> does not raise, and the batch it returns is the input batch with
  every label renamed and every cell as the specification asks: in the seven numeric
  columns text that is no number is null, then null is 0 in customer\_care\_calls,
  prior\_purchases and discount\_offered; all other nulls remain.
\<close>

theorem transform_data_coerces_then_fills:
  assumes "distinct (columns (heap w ! a))"
    and "validate_data (heap w ! a) = Inr True"
    and "set numeric_columns \<inter> set (columns (heap w ! a)) = {}"
  shows "fst (transform_data parse a w) = Inr (Suc (length (heap w)))
    \<and> frame (heap (snd (transform_data parse a w)) ! Suc (length (heap w)))
        = map (\<lambda>(n, vs). (rename_label n, map (spec_cell parse (rename_label n)) vs))
            (frame (heap w ! a))"
proof -
  have "frame (fillna fill_values ((heap w ! a)\<lparr>frame := map (\<lambda>(n, us). (n, if n \<in> set numeric_columns
                                  then map (to_numeric_cell parse) us else us))
                              (frame (rename_columns (heap w ! a)))\<rparr>))
      = map (\<lambda>(n, vs). (rename_label n, map (spec_cell parse (rename_label n)) vs))
            (frame (heap w ! a))"
    by (auto simp: fillna_def rename_columns_def comp_def case_prod_unfold
        spec_cell_code [symmetric] split: option.splits)
  then show ?thesis
    unfolding transform_data_closed_form [OF assms]
    by (simp add: logging_info_def nth_append)
qed

theorem transform_data_coerces_then_fills_witness:
  "distinct (columns (heap sample_world ! 0))
   \<and> validate_data (heap sample_world ! 0) = Inr True
   \<and> set numeric_columns \<inter> set (columns (heap sample_world ! 0)) = {}
   \<and> fst (transform_data sample_parse 0 sample_world) = Inr 2
   \<and> frame (heap (snd (transform_data sample_parse 0 sample_world)) ! 2)
       = [(''id'', [Num 1, Num 2]),
          (''warehouse_block'', [Str ''A'', Str ''B'']),
          (''mode_of_shipment'', [Str ''Ship'', Str ''Road'']),
          (''customer_care_calls'', [Num 4, Num 0]),
          (''customer_rating'', [Num 1, Num 5]),
          (''cost_of_the_product'', [Num 177, Null]),
          (''prior_purchases'', [Num 0, Num 3]),
          (''product_importance'', [Str ''low'', Null]),
          (''gender'', [Str ''F'', Str ''M'']),
          (''discount_offered'', [Num 7, Num 10]),
          (''weight_in_gms'', [Num 1233, Null]),
          (''reached_on_time'', [Num 1, Num 0]),
          (''Notes'', [Str ''fragile'', Null])]"
proof -
  have h: "heap sample_world ! 0 = sample_batch" "length (heap sample_world) = 1"
    by (simp_all add: sample_world_def)
  have lab: "map (\<lambda>(n, vs). (rename_label n, map (spec_cell sample_parse (rename_label n)) vs))
            (frame sample_batch) = [(''id'', [Num 1, Num 2]),
          (''warehouse_block'', [Str ''A'', Str ''B'']),
          (''mode_of_shipment'', [Str ''Ship'', Str ''Road'']),
          (''customer_care_calls'', [Num 4, Num 0]),
          (''customer_rating'', [Num 1, Num 5]),
          (''cost_of_the_product'', [Num 177, Null]),
          (''prior_purchases'', [Num 0, Num 3]),
          (''product_importance'', [Str ''low'', Null]),
          (''gender'', [Str ''F'', Str ''M'']),
          (''discount_offered'', [Num 7, Num 10]),
          (''weight_in_gms'', [Num 1233, Null]),
          (''reached_on_time'', [Num 1, Num 0]),
          (''Notes'', [Str ''fragile'', Null])]"
    by (simp add: sample_batch_def rename_label_def column_mapping_def spec_cell_def
        numeric_columns_def sample_parse_def)
  from transform_data_coerces_then_fills [OF sample_world_distinct sample_world_valid
         sample_world_no_clash, of sample_parse]
       sample_world_distinct sample_world_valid sample_world_no_clash
  show ?thesis unfolding h lab by (simp add: numeral_2_eq_2)
qed

text \<open>
  C1 as stated fails for a batch that passes validation and has a further column
  labelled \<open>customer_care_calls\<close>: after the rename two columns bear that label, the
  selection is a DataFrame, and \<open>to_numeric\<close> raises.
\<close>

theorem transform_data_label_clash_counterexample:
  "distinct (columns clashing_batch)
   \<and> validate_data clashing_batch = Inr True
   \<and> fst (transform_data sample_parse 0 (sample_world\<lparr>heap := [clashing_batch]\<rparr>))
       = Inl (TypeError ''arg must be a list, tuple, 1-d array, or Series'')"
  by (simp add: transform_data_def validate_data_def check_rating_def check_flag_def
      getitem_def all_true_def isin_def clashing_batch_def sample_batch_def columns_def
      required_columns_def rename_columns_def rename_label_def column_mapping_def
      numeric_columns_def sample_world_def)

text \<open>
  C7. \<open>validate_data\<close> only reads the batch it is given (it returns a verdict and
  no store). \<open>transform_data\<close> leaves the input object, and every other object that
  existed before the call, as it was, whether it returns or raises: it works on a copy,
  and what it returns is the address of a new object.
\<close>

theorem transform_data_leaves_input_unmodified:
  assumes "a < length (heap w)"
  shows "heap (snd (transform_data parse a w)) ! a = heap w ! a
    \<and> take (length (heap w)) (heap (snd (transform_data parse a w))) = heap w
    \<and> (\<forall>r. fst (transform_data parse a w) = Inr r \<longrightarrow>
          length (heap w) \<le> r \<and> r < length (heap (snd (transform_data parse a w))))"
  using transform_data_heap [of parse a w] assms by (auto simp: nth_append)

theorem transform_data_leaves_input_unmodified_witness:
  "(0::nat) < length (heap sample_world)
   \<and> fst (transform_data sample_parse 0 sample_world) = Inr 2
   \<and> heap (snd (transform_data sample_parse 0 sample_world)) ! 0 = sample_batch
   \<and> length (heap (snd (transform_data sample_parse 0 sample_world))) = 3"
proof -
  have a: "(0::nat) < length (heap sample_world)" by (simp add: sample_world_def)
  have h: "heap sample_world ! 0 = sample_batch" "length (heap sample_world) = 1"
    by (simp_all add: sample_world_def)
  have r: "fst (transform_data sample_parse 0 sample_world) = Inr 2"
    and l: "length (heap (snd (transform_data sample_parse 0 sample_world))) = 3"
    unfolding transform_data_closed_form [OF sample_world_distinct sample_world_valid
        sample_world_no_clash]
    by (simp_all add: h logging_info_def)
  from transform_data_leaves_input_unmodified [OF a, of sample_parse] a h r l
  show ?thesis by simp
qed

section \<open>What the operations leave untouched\<close>

lemma psycopg2_connect_frame:
  "server (snd (psycopg2_connect args w)) = server w
   \<and> files (snd (psycopg2_connect args w)) = files w
   \<and> heap (snd (psycopg2_connect args w)) = heap w"
  by (simp add: psycopg2_connect_def split: option.splits)

lemma psycopg2_connect_txn:
  "psycopg2_connect args w = (Inr c, w') \<Longrightarrow> txn c = server w \<and> \<not> autocommit c"
  by (auto simp: psycopg2_connect_def split: option.splits if_splits)

lemma get_connection_frame:
  "server (snd (get_connection cfg d w)) = server w
   \<and> files (snd (get_connection cfg d w)) = files w
   \<and> heap (snd (get_connection cfg d w)) = heap w"
  using psycopg2_connect_frame [of "connect_args_of cfg d" w]
  by (auto simp: get_connection_def logging_error_def split: prod.splits sum.splits)

lemma get_connection_txn:
  "get_connection cfg d w = (Inr c, w') \<Longrightarrow> txn c = server w \<and> \<not> autocommit c"
  by (auto simp: get_connection_def split: prod.splits sum.splits dest: psycopg2_connect_txn)

lemma finally_close_frame:
  "server (snd (finally_close exc l w)) = server w
   \<and> files (snd (finally_close exc l w)) = files w
   \<and> heap (snd (finally_close exc l w)) = heap w"
  by (simp add: finally_close_def cur_close_def conn_close_def split: option.splits)

lemma except_finally_frame:
  "server (snd (except_finally name (exc, l, w))) = server w
   \<and> files (snd (except_finally name (exc, l, w))) = files w
   \<and> heap (snd (except_finally name (exc, l, w))) = heap w"
  using finally_close_frame
  by (simp add: except_finally_def logging_error_def split: option.splits)

lemma map_of_append_fresh:
  "k' \<notin> fst ` set xs \<Longrightarrow> map_of (xs @ [(k', v)]) k = (if k = k' then Some v else map_of xs k)"
  by (induction xs) auto

lemma rows_at_new_table:
  "k' \<notin> fst ` set (tables s) \<Longrightarrow>
   rows_at k (s\<lparr>tables := tables s @ [(k', \<lparr>table_def = d, table_rows = []\<rparr>)]\<rparr>) = rows_at k s"
proof -
  assume fresh: "k' \<notin> fst ` set (tables s)"
  then have none: "map_of (tables s) k' = None" by (simp add: map_of_eq_None_iff)
  show ?thesis
  proof (cases "k = k'")
    case True
    with none show ?thesis by (simp add: rows_at_def map_add_def)
  next
    case False
    then show ?thesis by (simp add: rows_at_def map_add_def split: option.splits)
  qed
qed

text \<open>The statements other than the INSERT leave the rows of every table as they are.\<close>

lemma pg_execute_ddl_rows:
  assumes "pg_execute st_ok now cdb db auto s st = Inr (s', res)" and "\<not> is_insert st"
  shows "rows_at k s' = rows_at k s"
proof (cases st)
  case (CreateTableIfNotExists sch tbl cols)
  with assms(1) show ?thesis
    by (auto simp: pg_execute_def rows_at_new_table split: if_splits)
next
  case (InsertOnConflictUpdate sch tbl cols vals key set_cols)
  with assms(2) show ?thesis by simp
qed (use assms(1) in \<open>auto simp: pg_execute_def rows_at_def split: if_splits\<close>)

lemma cur_execute_frame:
  assumes "cur_execute st c w = Inr (res, c', w')"
  shows "files w' = files w \<and> heap w' = heap w \<and> autocommit c' = autocommit c
     \<and> (\<not> autocommit c \<longrightarrow> server w' = server w)"
  using assms by (auto simp: cur_execute_def split: sum.splits if_splits)

lemma cur_execute_ddl_rows:
  assumes "cur_execute st c w = Inr (res, c', w')" and "\<not> is_insert st"
    and "rows_at k (txn c) = rows_at k (server w)"
  shows "rows_at k (txn c') = rows_at k (server w) \<and> rows_at k (server w') = rows_at k (server w)"
proof -
  let ?s = "if autocommit c then server w else txn c"
  from assms(1) obtain s' where
    ex: "pg_execute (storable w) (clock w) (createdb w) (conn_db c) (autocommit c) ?s st
           = Inr (s', res)"
    and c': "c' = c\<lparr>txn := s'\<rparr>"
    and w': "w' = (if autocommit c then w\<lparr>server := s'\<rparr> else w)"
    by (auto simp: cur_execute_def split: sum.splits)
  from pg_execute_ddl_rows [OF ex assms(2)] have "rows_at k s' = rows_at k ?s" .
  with assms(3) c' w' show ?thesis by (simp split: if_splits)
qed

lemma untouched_refl: "untouched w w"
  by (simp add: untouched_def)

lemma untouched_trans: "untouched w w1 \<Longrightarrow> untouched w1 w2 \<Longrightarrow> untouched w w2"
  by (simp add: untouched_def)

lemma untouched_log:
  "untouched w w' \<Longrightarrow> untouched w (logging_info m w')"
  "untouched w w' \<Longrightarrow> untouched w (logging_error m w')"
  by (simp_all add: untouched_def logging_info_def logging_error_def)

lemma untouched_cursor: "untouched w w' \<Longrightarrow> untouched w (snd (conn_cursor w'))"
  by (simp add: untouched_def conn_cursor_def)

lemma get_connection_untouched: "untouched w (snd (get_connection cfg d w))"
  using get_connection_frame [of cfg d w] by (simp add: untouched_def)

lemma except_finally_untouched:
  "untouched w w' \<Longrightarrow> untouched w (snd (except_finally name (exc, l, w')))"
  using except_finally_frame [of name exc l w'] by (simp add: untouched_def)

lemma cur_execute_untouched:
  assumes "cur_execute st c w1 = Inr (res, c', w2)" and "\<not> is_insert st"
    and "untouched w w1" and "\<forall>k. rows_at k (txn c) = rows_at k (server w1)"
  shows "untouched w w2 \<and> (\<forall>k. rows_at k (txn c') = rows_at k (server w2))"
proof -
  have "\<forall>k. rows_at k (txn c') = rows_at k (server w1) \<and> rows_at k (server w2) = rows_at k (server w1)"
    using cur_execute_ddl_rows [OF assms(1,2)] assms(4) by blast
  moreover have "files w2 = files w1 \<and> heap w2 = heap w1"
    using cur_execute_frame [OF assms(1)] by simp
  ultimately show ?thesis using assms(3) by (simp add: untouched_def)
qed

lemma conn_commit_untouched:
  "untouched w w' \<Longrightarrow> \<forall>k. rows_at k (txn c) = rows_at k (server w') \<Longrightarrow>
   untouched w (conn_commit c w')"
  by (simp add: untouched_def conn_commit_def)

lemma create_database_untouched: "untouched w (snd (create_database cfg w))"
proof -
  have "untouched w (snd (snd (create_database_try cfg w)))"
  proof (cases "get_connection cfg ''postgres'' w")
    case (Pair r w1)
    have u1: "untouched w w1" using get_connection_untouched [of w cfg "''postgres''"] Pair by simp
    show ?thesis
    proof (cases r)
      case (Inl e)
      with Pair u1 show ?thesis by (simp add: create_database_try_def)
    next
      case (Inr c0)
      let ?c1 = "c0\<lparr>autocommit := True\<rparr>"
      let ?w2 = "snd (conn_cursor w1)"
      have u2: "untouched w ?w2" using u1 by (rule untouched_cursor)
      have t: "\<forall>k. rows_at k (txn ?c1) = rows_at k (server ?w2)"
        using get_connection_txn [of cfg "''postgres''" w c0 w1] Pair Inr
          get_connection_frame [of cfg "''postgres''" w]
        by (simp add: conn_cursor_def)
      show ?thesis
      proof (cases "cur_execute (SelectDatabase (dbname cfg)) ?c1 ?w2")
        case (Inl e)
        with Pair Inr u2 show ?thesis
          by (simp add: create_database_try_def conn_cursor_def)
      next
        case sel: (Inr x)
        obtain k1 c2 w3 where x: "x = (k1, c2, w3)" by (cases x) auto
        from cur_execute_untouched [OF sel [unfolded x] _ u2 t]
        have u3: "untouched w w3" and t3: "\<forall>k. rows_at k (txn c2) = rows_at k (server w3)"
          by simp_all
        show ?thesis
        proof (cases "k1 = []")
          case False
          with Pair Inr sel x u3 show ?thesis
            by (simp add: create_database_try_def conn_cursor_def untouched_log)
        next
          case True
          show ?thesis
          proof (cases "cur_execute (CreateDatabase (dbname cfg)) c2 w3")
            case (Inl e)
            with Pair \<open>r = Inr c0\<close> sel x u3 True show ?thesis
              by (simp add: create_database_try_def conn_cursor_def)
          next
            case cr: (Inr y)
            obtain k2 c3 w4 where y: "y = (k2, c3, w4)" by (cases y) auto
            from cur_execute_untouched [OF cr [unfolded y] _ u3 t3]
            have "untouched w w4" by simp
            with Pair \<open>r = Inr c0\<close> sel x True cr y show ?thesis
              by (simp add: create_database_try_def conn_cursor_def untouched_log)
          qed
        qed
      qed
    qed
  qed
  then show ?thesis
    using except_finally_untouched [of w "snd (snd (create_database_try cfg w))"
        "''create_database''" "fst (create_database_try cfg w)"
        "fst (snd (create_database_try cfg w))"]
    by (simp add: create_database_def)
qed

lemma create_schema_untouched: "untouched w (snd (create_schema cfg w))"
proof -
  have "untouched w (snd (snd (create_schema_try cfg w)))"
  proof (cases "get_connection cfg (dbname cfg) w")
    case (Pair r w1)
    have u1: "untouched w w1" using get_connection_untouched [of w cfg "dbname cfg"] Pair by simp
    show ?thesis
    proof (cases r)
      case (Inl e)
      with Pair u1 show ?thesis by (simp add: create_schema_try_def)
    next
      case (Inr c0)
      let ?w2 = "snd (conn_cursor w1)"
      have u2: "untouched w ?w2" using u1 by (rule untouched_cursor)
      have t: "\<forall>k. rows_at k (txn c0) = rows_at k (server ?w2)"
        using get_connection_txn [of cfg "dbname cfg" w c0 w1] Pair Inr
          get_connection_frame [of cfg "dbname cfg" w]
        by (simp add: conn_cursor_def)
      show ?thesis
      proof (cases "cur_execute (CreateSchemaIfNotExists ''warehouse'') c0 ?w2")
        case (Inl e)
        with Pair Inr u2 show ?thesis
          by (simp add: create_schema_try_def conn_cursor_def)
      next
        case ex: (Inr x)
        obtain k1 c1 w3 where x: "x = (k1, c1, w3)" by (cases x) auto
        from cur_execute_untouched [OF ex [unfolded x] _ u2 t]
        have "untouched w w3" and "\<forall>k. rows_at k (txn c1) = rows_at k (server w3)"
          by simp_all
        then have "untouched w (conn_commit c1 w3)" by (rule conn_commit_untouched)
        with Pair Inr ex x show ?thesis
          by (simp add: create_schema_try_def conn_cursor_def untouched_log)
      qed
    qed
  qed
  then show ?thesis
    using except_finally_untouched [of w "snd (snd (create_schema_try cfg w))"
        "''create_schema''" "fst (create_schema_try cfg w)" "fst (snd (create_schema_try cfg w))"]
    by (simp add: create_schema_def)
qed

lemma create_table_untouched: "untouched w (snd (create_table cfg w))"
proof -
  have "untouched w (snd (snd (create_table_try cfg w)))"
  proof (cases "get_connection cfg (dbname cfg) w")
    case (Pair r w1)
    have u1: "untouched w w1" using get_connection_untouched [of w cfg "dbname cfg"] Pair by simp
    show ?thesis
    proof (cases r)
      case (Inl e)
      with Pair u1 show ?thesis by (simp add: create_table_try_def)
    next
      case (Inr c0)
      let ?w2 = "snd (conn_cursor w1)"
      have u2: "untouched w ?w2" using u1 by (rule untouched_cursor)
      have t: "\<forall>k. rows_at k (txn c0) = rows_at k (server ?w2)"
        using get_connection_txn [of cfg "dbname cfg" w c0 w1] Pair Inr
          get_connection_frame [of cfg "dbname cfg" w]
        by (simp add: conn_cursor_def)
      show ?thesis
      proof (cases "cur_execute (CreateTableIfNotExists ''warehouse'' ''shipments'' shipments_def) c0 ?w2")
        case (Inl e)
        with Pair Inr u2 show ?thesis
          by (simp add: create_table_try_def conn_cursor_def)
      next
        case ex: (Inr x)
        obtain k1 c1 w3 where x: "x = (k1, c1, w3)" by (cases x) auto
        from cur_execute_untouched [OF ex [unfolded x] _ u2 t]
        have "untouched w w3" and "\<forall>k. rows_at k (txn c1) = rows_at k (server w3)"
          by simp_all
        then have "untouched w (conn_commit c1 w3)" by (rule conn_commit_untouched)
        with Pair Inr ex x show ?thesis
          by (simp add: create_table_try_def conn_cursor_def untouched_log)
      qed
    qed
  qed
  then show ?thesis
    using except_finally_untouched [of w "snd (snd (create_table_try cfg w))"
        "''create_table''" "fst (create_table_try cfg w)" "fst (snd (create_table_try cfg w))"]
    by (simp add: create_table_def)
qed

section \<open>Provisioning\<close>

lemma arg_dbname_target: "arg_dbname (connect_args_of cfg (dbname cfg)) = Some (dbname cfg)"
  by (simp add: connect_args_of_def)

lemmas op_defs =
  except_finally_def finally_close_def get_connection_def psycopg2_connect_def
  conn_cursor_def cur_close_def conn_close_def cur_execute_def pg_execute_def conn_commit_def
  logging_info_def logging_error_def

lemmas eval_defs =
  sample_config_def DB_CONFIG_def getenv_def sample_world_def
  create_database_def create_database_try_def create_schema_def create_schema_try_def
  create_table_def create_table_try_def except_finally_def finally_close_def
  get_connection_def psycopg2_connect_def connect_args_of_def conn_cursor_def cur_close_def
  conn_close_def cur_execute_def pg_execute_def conn_commit_def logging_info_def
  logging_error_def

lemma create_database_ok:
  assumes "reachable w (connect_args_of cfg ''postgres'')"
    and "''postgres'' \<in> set (databases (server w))"
    and "createdb w \<or> dbname cfg \<in> set (databases (server w))"
  shows "fst (create_database cfg w) = Inr ()
    \<and> server (snd (create_database cfg w)) = ensure_database (dbname cfg) (server w)
    \<and> same_service w (snd (create_database cfg w))"
  using assms
  by (auto simp: create_database_def create_database_try_def op_defs ensure_database_def
      same_service_def connect_args_of_def)

lemma create_schema_ok:
  assumes "reachable w (connect_args_of cfg (dbname cfg))"
    and "dbname cfg \<in> set (databases (server w))"
  shows "fst (create_schema cfg w) = Inr ()
    \<and> server (snd (create_schema cfg w)) = ensure_schema (dbname cfg) (server w)
    \<and> same_service w (snd (create_schema cfg w))"
  using assms arg_dbname_target [of cfg]
  by (auto simp: create_schema_def create_schema_try_def op_defs ensure_schema_def
      same_service_def)

lemma create_table_ok:
  assumes "reachable w (connect_args_of cfg (dbname cfg))"
    and "dbname cfg \<in> set (databases (server w))"
    and "(dbname cfg, ''warehouse'') \<in> set (schemas (server w))"
  shows "fst (create_table cfg w) = Inr ()
    \<and> server (snd (create_table cfg w)) = ensure_table (dbname cfg) (server w)
    \<and> same_service w (snd (create_table cfg w))"
  using assms arg_dbname_target [of cfg]
  by (auto simp: create_table_def create_table_try_def op_defs ensure_table_def
      same_service_def)

lemma provision_ok:
  assumes "provisionable cfg w"
  shows "fst (provision cfg w) = Inr ()
    \<and> server (snd (provision cfg w))
        = ensure_table (dbname cfg) (ensure_schema (dbname cfg)
            (ensure_database (dbname cfg) (server w)))
    \<and> same_service w (snd (provision cfg w))"
proof -
  obtain r1 w1 where p1: "create_database cfg w = (r1, w1)" by (cases "create_database cfg w")
  obtain r2 w2 where p2: "create_schema cfg w1 = (r2, w2)" by (cases "create_schema cfg w1")
  obtain r3 w3 where p3: "create_table cfg w2 = (r3, w3)" by (cases "create_table cfg w2")
  from assms have a: "reachable w (connect_args_of cfg ''postgres'')"
    "reachable w (connect_args_of cfg (dbname cfg))"
    "''postgres'' \<in> set (databases (server w))" "createdb w"
    by (simp_all add: provisionable_def)
  from create_database_ok [of w cfg] a p1
  have 1: "r1 = Inr ()" "server w1 = ensure_database (dbname cfg) (server w)" "same_service w w1"
    by simp_all
  have d1: "dbname cfg \<in> set (databases (server w1))"
    unfolding 1(2) by (simp add: ensure_database_def)
  have r1: "reachable w1 (connect_args_of cfg (dbname cfg))"
    using 1(3) a(2) by (simp add: same_service_def)
  from create_schema_ok [OF r1 d1] p2
  have 2: "r2 = Inr ()" "server w2 = ensure_schema (dbname cfg) (server w1)" "same_service w1 w2"
    by simp_all
  have d2: "dbname cfg \<in> set (databases (server w2))"
    unfolding 2(2) using d1 by (simp add: ensure_schema_def)
  have s2: "(dbname cfg, ''warehouse'') \<in> set (schemas (server w2))"
    unfolding 2(2) by (simp add: ensure_schema_def)
  have r2: "reachable w2 (connect_args_of cfg (dbname cfg))"
    using 2(3) r1 by (simp add: same_service_def)
  from create_table_ok [OF r2 d2 s2] p3
  have 3: "r3 = Inr ()" "server w3 = ensure_table (dbname cfg) (server w2)" "same_service w2 w3"
    by simp_all
  have "same_service w w3" using 1(3) 2(3) 3(3) by (simp add: same_service_def)
  then show ?thesis using p1 p2 p3 1 2 3 by (simp add: provision_def)
qed

lemma provisionable_kept:
  assumes "provisionable cfg w"
  shows "provisionable cfg (snd (provision cfg w))"
proof -
  from provision_ok [OF assms]
  have s: "server (snd (provision cfg w))
        = ensure_table (dbname cfg) (ensure_schema (dbname cfg)
            (ensure_database (dbname cfg) (server w)))"
    and k: "same_service w (snd (provision cfg w))" by simp_all
  have "''postgres'' \<in> set (databases (server (snd (provision cfg w))))"
    using assms unfolding s
    by (simp add: provisionable_def ensure_table_def ensure_schema_def ensure_database_def)
  with assms k show ?thesis by (simp add: provisionable_def same_service_def)
qed

lemma ensure_all_idempotent:
  "ensure_table db (ensure_schema db (ensure_database db
     (ensure_table db (ensure_schema db (ensure_database db s)))))
   = ensure_table db (ensure_schema db (ensure_database db s))"
  by (simp add: ensure_table_def ensure_schema_def ensure_database_def)

lemma sample_provision:
  "fst (provision sample_config sample_world) = Inr ()
   \<and> server (snd (provision sample_config sample_world))
       = \<lparr>databases = [''postgres'', ''train''], schemas = [(''train'', ''warehouse'')],
          tables = [((''train'', ''warehouse'', ''shipments''),
                     \<lparr>table_def = shipments_def, table_rows = []\<rparr>)]\<rparr>"
  by (simp add: provision_def eval_defs)

text \<open>
  C5. On a fresh target (no database of the configured name, hence no schema and no
  table in it) whose server lets provisioning through, running the three operations
  twice leaves the catalogs as running them once does: the database is there once, with
  the one schema warehouse and the one table warehouse.shipments, defined as in
  \<open>create_table_query\<close> and empty.
\<close>

theorem provisioning_twice_is_once:
  assumes "provisionable cfg w"
    and "dbname cfg \<notin> set (databases (server w))"
    and "\<forall>x \<in> set (schemas (server w)). fst x \<noteq> dbname cfg"
    and "\<forall>x \<in> set (tables (server w)). fst (fst x) \<noteq> dbname cfg"
  shows "fst (provision cfg w) = Inr ()
    \<and> fst (provision cfg (snd (provision cfg w))) = Inr ()
    \<and> server (snd (provision cfg (snd (provision cfg w)))) = server (snd (provision cfg w))
    \<and> count_list (databases (server (snd (provision cfg w)))) (dbname cfg) = 1
    \<and> filter (\<lambda>x. fst x = dbname cfg) (schemas (server (snd (provision cfg w))))
        = [(dbname cfg, ''warehouse'')]
    \<and> filter (\<lambda>x. fst (fst x) = dbname cfg) (tables (server (snd (provision cfg w))))
        = [((dbname cfg, ''warehouse'', ''shipments''),
            \<lparr>table_def = shipments_def, table_rows = []\<rparr>)]"
proof -
  let ?w1 = "snd (provision cfg w)"
  let ?E = "\<lambda>s. ensure_table (dbname cfg) (ensure_schema (dbname cfg)
                   (ensure_database (dbname cfg) s))"
  from provision_ok [OF assms(1)]
  have 1: "fst (provision cfg w) = Inr ()" "server ?w1 = ?E (server w)" by simp_all
  from provision_ok [OF provisionable_kept [OF assms(1)]]
  have 2: "fst (provision cfg ?w1) = Inr ()" "server (snd (provision cfg ?w1)) = ?E (server ?w1)"
    by simp_all
  have same: "server (snd (provision cfg ?w1)) = server ?w1"
    unfolding 2(2) 1(2) by (rule ensure_all_idempotent)
  have sch: "(dbname cfg, ''warehouse'') \<notin> set (schemas (server w))"
    using assms(3) by auto
  have tbl: "(dbname cfg, ''warehouse'', ''shipments'') \<notin> fst ` set (tables (server w))"
    using assms(4) by auto
  have fs: "filter (\<lambda>x. fst x = dbname cfg) (schemas (server w)) = []"
    using assms(3) by (auto simp: filter_empty_conv)
  have ft: "filter (\<lambda>x. fst (fst x) = dbname cfg) (tables (server w)) = []"
    using assms(4) by (auto simp: filter_empty_conv)
  have E: "?E (server w) = (server w)\<lparr>databases := databases (server w) @ [dbname cfg],
      schemas := schemas (server w) @ [(dbname cfg, ''warehouse'')],
      tables := tables (server w) @ [((dbname cfg, ''warehouse'', ''shipments''),
                                      \<lparr>table_def = shipments_def, table_rows = []\<rparr>)]\<rparr>"
    using assms(2) sch tbl
    by (simp add: ensure_table_def ensure_schema_def ensure_database_def)
  have cnt: "count_list (databases (server w)) (dbname cfg) = 0"
    using assms(2) by (simp add: count_list_0_iff)
  show ?thesis
    unfolding same 1(2) E using 1(1) 2(1) fs ft cnt by simp
qed

theorem provisioning_twice_is_once_witness:
  "provisionable sample_config sample_world
   \<and> dbname sample_config \<notin> set (databases (server sample_world))
   \<and> fst (provision sample_config (snd (provision sample_config sample_world))) = Inr ()
   \<and> server (snd (provision sample_config (snd (provision sample_config sample_world))))
       = \<lparr>databases = [''postgres'', ''train''], schemas = [(''train'', ''warehouse'')],
          tables = [((''train'', ''warehouse'', ''shipments''),
                     \<lparr>table_def = shipments_def, table_rows = []\<rparr>)]\<rparr>"
proof -
  have p: "provisionable sample_config sample_world"
    by (simp add: provisionable_def sample_world_def)
  have d: "dbname sample_config \<notin> set (databases (server sample_world))"
    by (simp add: sample_config_def DB_CONFIG_def getenv_def sample_world_def)
  have s: "\<forall>x \<in> set (schemas (server sample_world)). fst x \<noteq> dbname sample_config"
    by (simp add: sample_world_def)
  have t: "\<forall>x \<in> set (tables (server sample_world)). fst (fst x) \<noteq> dbname sample_config"
    by (simp add: sample_world_def)
  from provisioning_twice_is_once [OF p d s t] p d sample_provision
  show ?thesis by simp
qed

text \<open>
  C8. Every operation is meant to release its connection on every exit path without
  raising anew, also when the connection cannot be opened. With a server that refuses
  connections, \<open>get_connection\<close> raises the driver's error, and the \<open>finally\<close> block of
  each of the four operations then raises UnboundLocalError for \<open>cur\<close>, which is what
  the caller gets.
\<close>

theorem unreachable_server_masks_connection_error:
  "fst (get_connection sample_config ''postgres'' (sample_world\<lparr>reachable := \<lambda>args. False\<rparr>))
     = Inl (OperationalError ''connection failed'')
   \<and> fst (create_database sample_config (sample_world\<lparr>reachable := \<lambda>args. False\<rparr>))
     = Inl (UnboundLocalError ''cur'')
   \<and> fst (create_schema sample_config (sample_world\<lparr>reachable := \<lambda>args. False\<rparr>))
     = Inl (UnboundLocalError ''cur'')
   \<and> fst (create_table sample_config (sample_world\<lparr>reachable := \<lambda>args. False\<rparr>))
     = Inl (UnboundLocalError ''cur'')
   \<and> fst (load_data sample_config 0 (sample_world\<lparr>reachable := \<lambda>args. False\<rparr>))
     = Inl (UnboundLocalError ''cur'')"
  by (simp add: eval_defs load_data_def load_data_try_def)

section \<open>Rejected batches\<close>

text \<open>A batch that validation rejects ends the run with an error and no row written.\<close>

lemma main_rejected_batch:
  assumes "files w ''shipments.csv'' = Some df" and "validate_data df = Inl e"
  shows "(\<exists>e'. fst (main parse cfg w) = Inl e')
     \<and> (\<forall>k. rows_at k (server (snd (main parse cfg w))) = rows_at k (server w))"
proof -
  obtain r1 w1 where p1: "create_database cfg w = (r1, w1)" by (cases "create_database cfg w")
  obtain r2 w2 where p2: "create_schema cfg w1 = (r2, w2)" by (cases "create_schema cfg w1")
  obtain r3 w3 where p3: "create_table cfg w2 = (r3, w3)" by (cases "create_table cfg w2")
  have u1: "untouched w w1" using create_database_untouched [of w cfg] p1 by simp
  have u2: "untouched w w2"
    using create_schema_untouched [of w1 cfg] p2 u1 by (auto intro: untouched_trans)
  have u3: "untouched w w3"
    using create_table_untouched [of w2 cfg] p3 u2 by (auto intro: untouched_trans)
  have f3: "files w3 ''shipments.csv'' = Some df" using u3 assms(1) by (simp add: untouched_def)
  let ?w4 = "logging_info ''Data extracted from CSV successfully'' (w3\<lparr>heap := heap w3 @ [df]\<rparr>)"
  have t: "transform_data parse (length (heap w3)) ?w4
           = (Inl e, logging_error (''Error in transform_data: '' @ message e) ?w4)"
    using assms(2) by (simp add: transform_data_def logging_info_def)
  have rest: "r1 = Inr () \<Longrightarrow> r2 = Inr () \<Longrightarrow> r3 = Inr () \<Longrightarrow>
      main parse cfg w = etl_failed e (logging_error (''Error in transform_data: '' @ message e) ?w4)"
    using p1 p2 p3 f3 t by (simp add: main_def read_csv_def logging_info_def)
  have srv: "server (logging_error (''Error in transform_data: '' @ message e) ?w4) = server w3"
    by (simp add: logging_error_def logging_info_def)
  show ?thesis
  proof (cases r1)
    case (Inl e1)
    with p1 u1 show ?thesis by (simp add: main_def etl_failed_def logging_error_def untouched_def)
  next
    case a: (Inr x1)
    show ?thesis
    proof (cases r2)
      case (Inl e2)
      with p1 p2 a u2 show ?thesis
        by (simp add: main_def etl_failed_def logging_error_def untouched_def)
    next
      case b: (Inr x2)
      show ?thesis
      proof (cases r3)
        case (Inl e3)
        with p1 p2 p3 a b u3 show ?thesis
          by (simp add: main_def etl_failed_def logging_error_def untouched_def)
      next
        case c: (Inr x3)
        from rest a b c u3 srv show ?thesis
          by (simp add: etl_failed_def untouched_def logging_error_def)
      qed
    qed
  qed
qed

lemma main_after_provision:
  assumes "fst (provision cfg w) = Inr ()" and "files w ''shipments.csv'' = Some df"
    and "validate_data df = Inl e"
  shows "fst (main parse cfg w) = Inl e"
proof -
  obtain r1 w1 where p1: "create_database cfg w = (r1, w1)" by (cases "create_database cfg w")
  obtain r2 w2 where p2: "create_schema cfg w1 = (r2, w2)" by (cases "create_schema cfg w1")
  obtain r3 w3 where p3: "create_table cfg w2 = (r3, w3)" by (cases "create_table cfg w2")
  from assms(1) p1 p2 p3 have ok: "r1 = Inr ()" "r2 = Inr ()" "r3 = Inr ()"
    by (auto simp: provision_def split: sum.splits)
  have u1: "untouched w w1" using create_database_untouched [of w cfg] p1 by simp
  have u2: "untouched w w2"
    using create_schema_untouched [of w1 cfg] p2 u1 by (auto intro: untouched_trans)
  have u3: "untouched w w3"
    using create_table_untouched [of w2 cfg] p3 u2 by (auto intro: untouched_trans)
  have f3: "files w3 ''shipments.csv'' = Some df" using u3 assms(2) by (simp add: untouched_def)
  show ?thesis
    using p1 p2 p3 ok f3 assms(3)
    by (simp add: main_def read_csv_def logging_info_def transform_data_def etl_failed_def)
qed

text \<open>
  C4. When the CSV lacks one of the twelve required columns, validation raises
  "Missing required columns", \<open>main\<close> ends with an error (this one, when provisioning
  went through), and the rows of every table are what they were: the load stage has
  not run.
\<close>

theorem missing_column_rejected_before_load:
  assumes "files w ''shipments.csv'' = Some df"
    and "\<not> set required_columns \<subseteq> set (columns df)"
  shows "validate_data df = Inl (AssertionError ''Missing required columns'')
    \<and> (\<exists>e. fst (main parse cfg w) = Inl e)
    \<and> (\<forall>k. rows_at k (server (snd (main parse cfg w))) = rows_at k (server w))
    \<and> (fst (provision cfg w) = Inr () \<longrightarrow>
         fst (main parse cfg w) = Inl (AssertionError ''Missing required columns''))"
proof -
  have v: "validate_data df = Inl (AssertionError ''Missing required columns'')"
    using assms(2) by (auto simp: validate_data_def list_all_iff)
  from main_rejected_batch [OF assms(1) v] main_after_provision [OF _ assms(1) v] v
  show ?thesis by blast
qed

theorem missing_column_rejected_before_load_witness:
  "files (sample_world\<lparr>files := \<lambda>path. Some incomplete_batch\<rparr>) ''shipments.csv''
     = Some incomplete_batch
   \<and> \<not> set required_columns \<subseteq> set (columns incomplete_batch)
   \<and> fst (provision sample_config (sample_world\<lparr>files := \<lambda>path. Some incomplete_batch\<rparr>)) = Inr ()
   \<and> fst (main sample_parse sample_config (sample_world\<lparr>files := \<lambda>path. Some incomplete_batch\<rparr>))
       = Inl (AssertionError ''Missing required columns'')
   \<and> rows_at (''train'', ''warehouse'', ''shipments'')
        (server (snd (main sample_parse sample_config
                        (sample_world\<lparr>files := \<lambda>path. Some incomplete_batch\<rparr>)))) = []"
proof -
  let ?w = "sample_world\<lparr>files := \<lambda>path. Some incomplete_batch\<rparr>"
  have f: "files ?w ''shipments.csv'' = Some incomplete_batch" by simp
  have m: "\<not> set required_columns \<subseteq> set (columns incomplete_batch)"
    by (simp add: incomplete_batch_def sample_batch_def columns_def required_columns_def)
  have "provisionable sample_config ?w" by (simp add: provisionable_def sample_world_def)
  then have p: "fst (provision sample_config ?w) = Inr ()" using provision_ok by blast
  have r: "rows_at (''train'', ''warehouse'', ''shipments'') (server ?w) = []"
    by (simp add: rows_at_def sample_world_def)
  from missing_column_rejected_before_load [OF f m, of sample_parse sample_config] f m p r
  show ?thesis by simp
qed

text \<open>
  C3 (as amended). Take a batch in which Customer\_rating and Reached.on.Time\_Y.N each
  label exactly one column, and in which some Customer\_rating value is not a number in
  [1,5] or some Reached.on.Time\_Y.N value is not 0 or 1. Validation raises, the run
  ends with an error and no row of any table is written. The error is the assertion
  failure of the first check that fails, with the message of that check: "Missing
  required columns" when a required column is absent, else "Invalid customer ratings"
  when a rating is out of range, else "Invalid reached on time values"; but when all
  required columns are there and a Customer\_rating value is text, the comparison
  raises a TypeError before the assertion is reached.
\<close>

theorem invalid_values_rejected:
  assumes "files w ''shipments.csv'' = Some df"
    and "getitem df ''Customer_rating'' = Inr (Series rating)"
    and "getitem df ''Reached.on.Time_Y.N'' = Inr (Series flag)"
    and "(\<exists>v \<in> set rating. \<not> rating_ok v) \<or> (\<exists>v \<in> set flag. \<not> flag_ok v)"
  shows "validate_data df =
      (if \<not> set required_columns \<subseteq> set (columns df)
       then Inl (AssertionError ''Missing required columns'')
       else if \<exists>v \<in> set rating. is_text v
       then Inl (TypeError ''>= not supported between instances of str and int'')
       else if \<exists>v \<in> set rating. \<not> rating_ok v
       then Inl (AssertionError ''Invalid customer ratings'')
       else Inl (AssertionError ''Invalid reached on time values''))
    \<and> (\<exists>e. fst (main parse cfg w) = Inl e)
    \<and> (\<forall>k. rows_at k (server (snd (main parse cfg w))) = rows_at k (server w))"
proof -
  have v: "validate_data df =
      (if \<not> set required_columns \<subseteq> set (columns df)
       then Inl (AssertionError ''Missing required columns'')
       else if \<exists>v \<in> set rating. is_text v
       then Inl (TypeError ''>= not supported between instances of str and int'')
       else if \<exists>v \<in> set rating. \<not> rating_ok v
       then Inl (AssertionError ''Invalid customer ratings'')
       else Inl (AssertionError ''Invalid reached on time values''))"
    using assms(4) unfolding validate_data_verdict [OF assms(2,3)] by auto
  then obtain e where e: "validate_data df = Inl e" by (auto split: if_splits)
  from v main_rejected_batch [OF assms(1) e] show ?thesis by blast
qed

theorem invalid_values_rejected_witness:
  "files (sample_world\<lparr>files := \<lambda>path. Some out_of_range_batch\<rparr>) ''shipments.csv''
     = Some out_of_range_batch
   \<and> getitem out_of_range_batch ''Customer_rating'' = Inr (Series [Num 3, Num 9])
   \<and> getitem out_of_range_batch ''Reached.on.Time_Y.N'' = Inr (Series [Num 1, Num 0])
   \<and> \<not> rating_ok (Num 9)
   \<and> validate_data out_of_range_batch = Inl (AssertionError ''Invalid customer ratings'')
   \<and> (\<exists>e. fst (main sample_parse sample_config
                  (sample_world\<lparr>files := \<lambda>path. Some out_of_range_batch\<rparr>)) = Inl e)
   \<and> rows_at (''train'', ''warehouse'', ''shipments'')
        (server (snd (main sample_parse sample_config
                        (sample_world\<lparr>files := \<lambda>path. Some out_of_range_batch\<rparr>)))) = []"
proof -
  let ?w = "sample_world\<lparr>files := \<lambda>path. Some out_of_range_batch\<rparr>"
  have f: "files ?w ''shipments.csv'' = Some out_of_range_batch" by simp
  have r: "getitem out_of_range_batch ''Customer_rating'' = Inr (Series [Num 3, Num 9])"
    by (simp add: getitem_def out_of_range_batch_def sample_batch_def)
  have g: "getitem out_of_range_batch ''Reached.on.Time_Y.N'' = Inr (Series [Num 1, Num 0])"
    by (simp add: getitem_def out_of_range_batch_def sample_batch_def)
  have b: "(\<exists>v \<in> set [Num 3, Num 9]. \<not> rating_ok v) \<or> (\<exists>v \<in> set [Num 1, Num 0]. \<not> flag_ok v)"
    by simp
  have q: "set required_columns \<subseteq> set (columns out_of_range_batch)"
    by (simp add: out_of_range_batch_def sample_batch_def columns_def required_columns_def)
  have e: "rows_at (''train'', ''warehouse'', ''shipments'') (server ?w) = []"
    by (simp add: rows_at_def sample_world_def)
  from invalid_values_rejected [OF f r g b, of sample_parse sample_config] f r g q e
  show ?thesis by simp
qed

text \<open>
  C3 as stated fails when the Customer\_rating column holds text beside the rating 9:
  the comparison itself raises a TypeError, whose message names no check.
\<close>

theorem text_rating_counterexample:
  "(''Customer_rating'', [Num 9, Str ''bad'']) \<in> set (frame mixed_rating_batch)
   \<and> \<not> rating_ok (Num 9)
   \<and> validate_data mixed_rating_batch
       = Inl (TypeError ''>= not supported between instances of str and int'')"
  by (simp add: validate_data_def check_rating_def getitem_def
      mixed_rating_batch_def sample_batch_def columns_def required_columns_def)

section \<open>Properties of the upsert\<close>


lemma overwrite_labels: "map fst (overwrite tdef sc ex old) = map fst tdef"
  by (simp add: overwrite_def comp_def case_prod_unfold)

lemma proposed_labels: "map fst (proposed now cols vals tdef) = map fst tdef"
  by (simp add: proposed_def comp_def case_prod_unfold)













section \<open>Properties of load\_data\<close>
































end
